theory Spec2Isabelle
  imports Complex_Main "HOL-Library.Multiset"
begin

section \<open>Values and errors shared by the pipeline\<close>

text \<open>
  Exceptions of the Python source are values: a fallible function returns
  \<open>py_error + 'a\<close> with \<open>Inl\<close> for the raise.
\<close>

datatype py_error = IndexError | KeyError | AttributeError | ValueError | TypeError
  | ZeroDivisionError | RuntimeError

text \<open>
  The values that occur in a sample: a Python/numpy scalar, a Python int, a float tensor and
  a long tensor. A tensor is its shape and its elements in row-major order. Floating point is
  read as real arithmetic throughout (no rounding, no NaN, no infinity).
\<close>

datatype pyval = PyFloat real | PyInt int
  | TensorF "nat list" "real list"
  | TensorL "nat list" "nat list"

section \<open>Return discretisation (three copies in the source)\<close>

text \<open>
  \<^verbatim>\<open>labels = torch.zeros_like(returns, dtype=torch.long)\<close> and the masked assignment
  \<^verbatim>\<open>labels[mask] = v\<close>, on the element lists of the tensors.
\<close>

definition zeros_like :: "real list \<Rightarrow> nat list" where
  "zeros_like returns = replicate (length returns) 0"

definition masked_assign :: "nat list \<Rightarrow> bool list \<Rightarrow> nat \<Rightarrow> nat list" where
  "masked_assign labels msk v = map2 (\<lambda>l m. if m then v else l) labels msk"

text \<open>\<^verbatim>\<open>DataTransform.create_class_labels\<close> (data_transforms.py): tensor branch.\<close>

definition dt_labels_tensor :: "real \<Rightarrow> real list \<Rightarrow> nat list" where
  "dt_labels_tensor threshold returns =
     (let labels = zeros_like returns;
          labels = masked_assign labels (map (\<lambda>r. r < - threshold) returns) 0;
          labels = masked_assign labels
                     (map (\<lambda>r. r \<ge> - threshold \<and> r \<le> threshold) returns) 1;
          labels = masked_assign labels (map (\<lambda>r. r > threshold) returns) 2
      in labels)"

text \<open>\<^verbatim>\<open>DataTransform.create_class_labels\<close>: scalar branch (if / elif / else).\<close>

definition dt_label_scalar :: "real \<Rightarrow> real \<Rightarrow> nat" where
  "dt_label_scalar threshold returns =
     (if returns < - threshold then 0
      else if returns \<le> threshold then 1
      else 2)"

text \<open>
  The dispatch on \<^verbatim>\<open>isinstance(returns, torch.Tensor)\<close>. A long tensor is a tensor too and
  is compared elementwise; the scalar branch first applies \<^verbatim>\<open>float(returns)\<close> and returns a
  0-dimensional long tensor.
\<close>

fun dt_create_class_labels :: "real \<Rightarrow> pyval \<Rightarrow> pyval" where
  "dt_create_class_labels threshold (TensorF sh rs) = TensorL sh (dt_labels_tensor threshold rs)"
| "dt_create_class_labels threshold (TensorL sh ns) =
     TensorL sh (dt_labels_tensor threshold (map real ns))"
| "dt_create_class_labels threshold (PyFloat r) = TensorL [] [dt_label_scalar threshold r]"
| "dt_create_class_labels threshold (PyInt n) =
     TensorL [] [dt_label_scalar threshold (real_of_int n)]"

text \<open>\<^verbatim>\<open>CMambaDataset.create_class_labels\<close> (dataset.py): the same two branches, the scalar
  one returning a plain Python int.\<close>

definition ds_labels_tensor :: "real \<Rightarrow> real list \<Rightarrow> nat list" where
  "ds_labels_tensor threshold returns =
     (let labels = zeros_like returns;
          labels = masked_assign labels (map (\<lambda>r. r < - threshold) returns) 0;
          labels = masked_assign labels
                     (map (\<lambda>r. r \<ge> - threshold \<and> r \<le> threshold) returns) 1;
          labels = masked_assign labels (map (\<lambda>r. r > threshold) returns) 2
      in labels)"

definition ds_label_scalar :: "real \<Rightarrow> real \<Rightarrow> nat" where
  "ds_label_scalar threshold returns =
     (if returns < - threshold then 0
      else if returns \<le> threshold then 1
      else 2)"

fun ds_create_class_labels :: "real \<Rightarrow> pyval \<Rightarrow> pyval" where
  "ds_create_class_labels threshold (TensorF sh rs) = TensorL sh (ds_labels_tensor threshold rs)"
| "ds_create_class_labels threshold (TensorL sh ns) =
     TensorL sh (ds_labels_tensor threshold (map real ns))"
| "ds_create_class_labels threshold (PyFloat r) = PyInt (int (ds_label_scalar threshold r))"
| "ds_create_class_labels threshold (PyInt n) =
     PyInt (int (ds_label_scalar threshold (real_of_int n)))"

text \<open>\<^verbatim>\<open>BaseModule.create_class_labels\<close> (base_module.py): tensor branch only.\<close>

definition bm_labels_tensor :: "real \<Rightarrow> real list \<Rightarrow> nat list" where
  "bm_labels_tensor threshold returns =
     (let labels = zeros_like returns;
          labels = masked_assign labels (map (\<lambda>r. r < - threshold) returns) 0;
          labels = masked_assign labels
                     (map (\<lambda>r. r \<ge> - threshold \<and> r \<le> threshold) returns) 1;
          labels = masked_assign labels (map (\<lambda>r. r > threshold) returns) 2
      in labels)"

section \<open>Tables, slices and indexing\<close>

text \<open>
  A pandas DataFrame: its column names and its rows in order. A row (one bar) gives a value
  to every column name; only the values at the names listed in \<open>columns\<close> belong to the table.
\<close>

record frame =
  columns :: "string list"
  rows :: "(string \<Rightarrow> real) list"

text \<open>Python's \<^verbatim>\<open>xs[lo:hi]\<close>: a negative bound counts from the end, every bound is clamped
  to the list, an absent bound is \<open>None\<close>.\<close>

definition slice_bound :: "nat \<Rightarrow> int \<Rightarrow> int" where
  "slice_bound n k = (if k < 0 then max 0 (k + int n) else min k (int n))"

definition py_slice :: "int option \<Rightarrow> int option \<Rightarrow> 'a list \<Rightarrow> 'a list" where
  "py_slice lo hi xs =
     (let a = (case lo of None \<Rightarrow> 0 | Some k \<Rightarrow> slice_bound (length xs) k);
          b = (case hi of None \<Rightarrow> int (length xs) | Some k \<Rightarrow> slice_bound (length xs) k)
      in take (nat (b - a)) (drop (nat a) xs))"

text \<open>Python's and numpy's \<^verbatim>\<open>xs[k]\<close>: a negative index counts from the end, an index outside
  the sequence raises.\<close>

definition py_get :: "'a list \<Rightarrow> int \<Rightarrow> py_error + 'a" where
  "py_get xs k =
     (let n = int (length xs); j = (if k < 0 then k + n else k)
      in if 0 \<le> j \<and> j < n then Inr (xs ! nat j) else Inl IndexError)"

text \<open>\<^verbatim>\<open>range(start, stop, step)\<close>; a zero step raises.\<close>

definition py_range :: "int \<Rightarrow> int \<Rightarrow> int \<Rightarrow> py_error + int list" where
  "py_range start stop step =
     (if step = 0 then Inl ValueError
      else if step > 0
        then Inr (map (\<lambda>k. start + int k * step)
                    [0 ..< nat ((stop - start + step - 1) div step)])
        else Inr (map (\<lambda>k. start + int k * step)
                    [0 ..< nat ((start - stop - step - 1) div (- step))]))"

text \<open>Sequencing of fallible steps: the first raise ends the computation.\<close>

definition err_bind :: "py_error + 'a \<Rightarrow> ('a \<Rightarrow> py_error + 'b) \<Rightarrow> py_error + 'b" where
  "err_bind m f = (case m of Inl e \<Rightarrow> Inl e | Inr x \<Rightarrow> f x)"

text \<open>
  Division. On Python floats a zero divisor raises; on numpy and torch operands it produces
  an infinity or NaN, which is no real number. Both are the error value here.
\<close>

definition fdiv :: "real \<Rightarrow> real \<Rightarrow> py_error + real" where
  "fdiv a b = (if b = 0 then Inl ZeroDivisionError else Inr (a / b))"

text \<open>\<^verbatim>\<open>df.iloc[lo:hi]\<close>, \<^verbatim>\<open>df.get(key)\<close> (None for an absent column) and \<^verbatim>\<open>df[key]\<close>
  (KeyError for an absent column).\<close>

definition iloc_slice :: "int option \<Rightarrow> int option \<Rightarrow> frame \<Rightarrow> frame" where
  "iloc_slice lo hi df = df\<lparr>rows := py_slice lo hi (rows df)\<rparr>"

definition frame_get :: "frame \<Rightarrow> string \<Rightarrow> real list option" where
  "frame_get df key =
     (if key \<in> set (columns df) then Some (map (\<lambda>r. r key) (rows df)) else None)"

definition frame_col :: "frame \<Rightarrow> string \<Rightarrow> py_error + real list" where
  "frame_col df key =
     (case frame_get df key of None \<Rightarrow> Inl KeyError | Some vs \<Rightarrow> Inr vs)"

type_synonym sample = "string \<rightharpoonup> pyval"

section \<open>DataTransform (data\_transforms.py)\<close>

text \<open>The attributes of a \<^verbatim>\<open>DataTransform\<close> object. \<open>dt_keys\<close> is the list \<^verbatim>\<open>self.keys\<close>.\<close>

record data_transform =
  dt_is_train :: bool
  dt_keys :: "string list"
  dt_task_type :: string
  dt_threshold :: real
  dt_y_key :: string

definition DataTransform_init ::
  "bool \<Rightarrow> bool \<Rightarrow> string \<Rightarrow> real \<Rightarrow> string \<Rightarrow> data_transform" where
  "DataTransform_init is_train use_volume task_type thr y_key =
     \<lparr>dt_is_train = is_train,
      dt_keys = [''Timestamp'', ''Open'', ''High'', ''Low'', ''Close'']
                @ (if use_volume then [''Volume''] else []),
      dt_task_type = task_type,
      dt_threshold = thr,
      dt_y_key = y_key\<rparr>"

text \<open>
  The body of \<^verbatim>\<open>for key in self.keys\<close>, on the pair \<open>(data_list, output)\<close>.
  \<^verbatim>\<open>window.get(key)\<close> is None for an absent column and \<^verbatim>\<open>None.tolist()\<close> raises
  AttributeError; \<^verbatim>\<open>data[-1]\<close> and \<^verbatim>\<open>data[-2]\<close> raise IndexError on a too short column.
\<close>

fun dt_loop ::
  "frame \<Rightarrow> string list \<Rightarrow> real list list \<times> sample \<Rightarrow> py_error + real list list \<times> sample" where
  "dt_loop window [] (data_list, output) = Inr (data_list, output)"
| "dt_loop window (key # keys) (data_list, output) =
     (case frame_get window key of
        None \<Rightarrow> Inl AttributeError
      | Some vals \<Rightarrow>
          (let data = (if key = ''Volume'' then map (\<lambda>x. x / 1000000000) vals else vals)
           in err_bind (py_get data (- 1)) (\<lambda>cur.
              err_bind (py_get data (- 2)) (\<lambda>old.
                (let output = output(key \<mapsto> TensorF [] [cur]);
                     output = output(key @ ''_old'' \<mapsto> TensorF [] [old])
                 in if key = ''Timestamp_orig'' then dt_loop window keys (data_list, output)
                    else dt_loop window keys
                           (data_list @ [py_slice None (Some (- 1)) data], output))))))"

text \<open>The value of a 0-dimensional float tensor, as the arithmetic on \<^verbatim>\<open>output[self.y_key]\<close>
  reads it.\<close>

fun item :: "pyval \<Rightarrow> py_error + real" where
  "item (TensorF sh [x]) = Inr x"
| "item (PyFloat x) = Inr x"
| "item (PyInt n) = Inr (real_of_int n)"
| "item v = Inl TypeError"

definition sample_get :: "sample \<Rightarrow> string \<Rightarrow> py_error + pyval" where
  "sample_get s key = (case s key of None \<Rightarrow> Inl KeyError | Some v \<Rightarrow> Inr v)"

text \<open>Lines 72--76: the return of the target column, with its guard against a zero
  previous price.\<close>

definition dt_returns :: "real \<Rightarrow> real \<Rightarrow> py_error + real" where
  "dt_returns current_price previous_price =
     (if previous_price \<noteq> 0
      then fdiv (current_price - previous_price) previous_price
      else Inr 0)"

text \<open>
  \<^verbatim>\<open>DataTransform.__call__\<close>. The object is passed in and returned, since the call appends
  to \<^verbatim>\<open>self.keys\<close> before anything else can raise. \<^verbatim>\<open>torch.cat(data_list, 0)\<close> stacks the
  rows, each of the window's length minus one, and raises RuntimeError on an empty list.
\<close>

definition dt_call :: "data_transform \<Rightarrow> frame \<Rightarrow> (py_error + sample) \<times> data_transform" where
  "dt_call self window =
     (let self = (if ''Timestamp_orig'' \<in> set (columns window)
                  then self\<lparr>dt_keys := dt_keys self @ [''Timestamp_orig'']\<rparr> else self)
      in (err_bind (dt_loop window (dt_keys self) ([], Map.empty)) (\<lambda>(data_list, output).
            if data_list = [] then Inl RuntimeError else
            (let features = TensorF [length data_list, length (rows window) - 1]
                              (concat data_list);
                 output = output(''features'' \<mapsto> features)
             in if dt_task_type self = ''classification''
                then err_bind (sample_get output (dt_y_key self)) (\<lambda>cv.
                     err_bind (sample_get output (dt_y_key self @ ''_old'')) (\<lambda>pv.
                     err_bind (item cv) (\<lambda>current_price.
                     err_bind (item pv) (\<lambda>previous_price.
                     err_bind (dt_returns current_price previous_price) (\<lambda>ret.
                       (let returns = TensorF [] [ret];
                            output = output(''returns'' \<mapsto> returns);
                            target_class = dt_create_class_labels (dt_threshold self) returns;
                            output = output(''target_class'' \<mapsto> target_class)
                        in Inr output))))))
                else Inr output)),
          self))"

section \<open>CMambaDataset (dataset.py)\<close>

text \<open>
  The attributes of a \<^verbatim>\<open>CMambaDataset\<close>. \<open>ds_window_size\<close> is the number of context bars of
  a window, a count. \<open>ds_returns\<close> is \<^verbatim>\<open>self.returns\<close>, an attribute that exists only after
  \<^verbatim>\<open>_compute_returns\<close> has run: \<open>None\<close> is the absent attribute.
\<close>

record dataset =
  ds_data :: frame
  ds_window_size :: nat
  ds_task_type :: string
  ds_y_key :: string
  ds_threshold :: real
  ds_returns :: "real list option"

text \<open>\<^verbatim>\<open>__len__\<close>: \<^verbatim>\<open>max(0, len(self.data) - self.window_size - 1)\<close>.\<close>

definition ds_len :: "dataset \<Rightarrow> int" where
  "ds_len self = max 0 (int (length (rows (ds_data self))) - int (ds_window_size self) - 1)"

text \<open>Lines 66--73 of \<^verbatim>\<open>_compute_returns\<close>: one pass of the loop body.\<close>

definition ds_return_at :: "real list \<Rightarrow> nat \<Rightarrow> int \<Rightarrow> py_error + real" where
  "ds_return_at prices window_size i =
     err_bind (py_get prices (i + int window_size)) (\<lambda>current_price.
     err_bind (py_get prices (i + int window_size - 1)) (\<lambda>previous_price.
       if previous_price \<noteq> 0
       then fdiv (current_price - previous_price) previous_price
       else Inr 0))"

fun ds_returns_loop :: "real list \<Rightarrow> nat \<Rightarrow> int list \<Rightarrow> real list \<Rightarrow> py_error + real list" where
  "ds_returns_loop prices window_size [] acc = Inr acc"
| "ds_returns_loop prices window_size (i # is) acc =
     err_bind (ds_return_at prices window_size i) (\<lambda>ret.
       ds_returns_loop prices window_size is (acc @ [ret]))"

text \<open>\<^verbatim>\<open>_compute_returns\<close>: \<^verbatim>\<open>self.data[self.y_key]\<close> raises KeyError for an absent column;
  the loop runs over \<^verbatim>\<open>range(len(self))\<close>.\<close>

definition compute_returns :: "dataset \<Rightarrow> py_error + dataset" where
  "compute_returns self =
     err_bind (frame_col (ds_data self) (ds_y_key self)) (\<lambda>prices.
     err_bind (py_range 0 (ds_len self) 1) (\<lambda>idx.
     err_bind (ds_returns_loop prices (ds_window_size self) idx []) (\<lambda>rets.
       Inr (self\<lparr>ds_returns := Some rets\<rparr>))))"

text \<open>\<^verbatim>\<open>__init__\<close> (the \<^verbatim>\<open>split\<close> argument is only printed).\<close>

definition CMambaDataset_init ::
  "frame \<Rightarrow> nat \<Rightarrow> string \<Rightarrow> string \<Rightarrow> real \<Rightarrow> py_error + dataset" where
  "CMambaDataset_init df window_size task_type y_key thr =
     (let self = \<lparr>ds_data = df, ds_window_size = window_size, ds_task_type = task_type,
                  ds_y_key = y_key, ds_threshold = thr, ds_returns = None\<rparr>
      in if task_type = ''classification'' then compute_returns self else Inr self)"

text \<open>The window that \<^verbatim>\<open>__getitem__\<close> cuts: \<^verbatim>\<open>self.data.iloc[i: i + self.window_size + 1]\<close>.\<close>

definition ds_window :: "dataset \<Rightarrow> int \<Rightarrow> frame" where
  "ds_window self i =
     iloc_slice (Some i) (Some (i + int (ds_window_size self) + 1)) (ds_data self)"

text \<open>
  \<^verbatim>\<open>__getitem__\<close>. The transform is any callable object: a function from its state and the
  window to the sample (or the raise) and its state afterwards.
\<close>

definition ds_getitem ::
  "dataset \<Rightarrow> ('st \<Rightarrow> frame \<Rightarrow> (py_error + sample) \<times> 'st) \<Rightarrow> 'st \<Rightarrow> int
     \<Rightarrow> (py_error + sample) \<times> 'st" where
  "ds_getitem self transform st i =
     (let smp = ds_window self i;
          (res, st') = transform st smp
      in (err_bind res (\<lambda>transformed_sample.
            if ds_task_type self = ''classification''
            then err_bind
                   (case transformed_sample ''returns'' of
                      Some v \<Rightarrow> Inr transformed_sample
                    | None \<Rightarrow>
                        (case ds_returns self of
                           None \<Rightarrow> Inl AttributeError
                         | Some rets \<Rightarrow>
                             err_bind (py_get rets i) (\<lambda>ret.
                               Inr (transformed_sample(''returns'' \<mapsto> PyFloat ret)))))
                   (\<lambda>transformed_sample.
                      err_bind (sample_get transformed_sample ''returns'') (\<lambda>ret.
                        (let target_class = ds_create_class_labels (ds_threshold self) ret
                         in Inr (transformed_sample(''target_class'' \<mapsto> target_class)))))
            else Inr transformed_sample),
          st'))"

text \<open>A concrete series for the examples: six one-minute bars with the timestamps
  0, 60, ..., 300 and the close prices 100, 101, ....\<close>

definition example_bar :: "nat \<Rightarrow> string \<Rightarrow> real" where
  "example_bar n key = (if key = ''Timestamp'' then 60 * real n else 100 + real n)"

definition example_frame :: frame where
  "example_frame =
     \<lparr>columns = [''Timestamp'', ''Open'', ''High'', ''Low'', ''Close'', ''Volume''],
      rows = map example_bar [0 ..< 6]\<rparr>"

definition example_dataset :: dataset where
  "example_dataset =
     \<lparr>ds_data = example_frame, ds_window_size = 3, ds_task_type = ''regression'',
      ds_y_key = ''Close'', ds_threshold = 1 / 1000, ds_returns = None\<rparr>"

section \<open>DataConverter (dataset.py): aggregation\<close>

text \<open>
  One record of the OHLCV table, raw or aggregated, with the table's column names.
  \<^verbatim>\<open>get_row_values\<close> reads the six columns of a row with \<^verbatim>\<open>float(...)\<close>.
\<close>

record ohlcv =
  Timestamp :: real
  High :: real
  Low :: real
  Open :: real
  Close :: real
  Volume :: real

text \<open>
  The attributes of a \<^verbatim>\<open>DataConverter\<close> that the aggregation and the ratio split read.
  \<^verbatim>\<open>split\<close> reads \<^verbatim>\<open>self.train_ratio\<close> and \<^verbatim>\<open>self.test_ratio\<close>; an attribute that has
  not been assigned is \<open>None\<close> here, and reading it raises AttributeError.
\<close>

record data_converter =
  dc_jumps :: int
  dc_train_ratio :: "real option"
  dc_test_ratio :: "real option"

definition read_attr :: "'a option \<Rightarrow> py_error + 'a" where
  "read_attr a = (case a of None \<Rightarrow> Inl AttributeError | Some v \<Rightarrow> Inr v)"

text \<open>
  \<^verbatim>\<open>__init__(config)\<close> sets \<^verbatim>\<open>self.jumps = config.get('jumps') * 60\<close> (and the configuration,
  the paths and the dates, which nothing below reads). It assigns neither
  \<^verbatim>\<open>self.train_ratio\<close> nor \<^verbatim>\<open>self.test_ratio\<close>, whatever the configuration holds, and no
  other code of the repository assigns them.
\<close>

definition DataConverter_init :: "int \<Rightarrow> data_converter" where
  "DataConverter_init config_jumps =
     \<lparr>dc_jumps = config_jumps * 60, dc_train_ratio = None, dc_test_ratio = None\<rparr>"

text \<open>
  \<^verbatim>\<open>load_data\<close>, after the file has been read and the configured dates have been turned
  into the timestamps \<open>start\<close> and \<open>stop\<close> (\<^verbatim>\<open>generate_timestamp\<close>): the table is cut to
  \<open>start \<le> Timestamp < stop\<close>, and \<open>stop\<close> is returned again as \<^verbatim>\<open>final_day\<close>.
\<close>

definition load_data :: "ohlcv list \<Rightarrow> int \<Rightarrow> int \<Rightarrow> ohlcv list \<times> int \<times> int" where
  "load_data df start stop =
     (let df = filter (\<lambda>r. Timestamp r \<ge> real_of_int start) df;
          df = filter (\<lambda>r. Timestamp r < real_of_int stop) df;
          final_day = stop
      in (df, start, final_day))"

text \<open>The loop \<^verbatim>\<open>for row in tmp.iterrows()\<close> of \<^verbatim>\<open>merge_data\<close>, on
  \<open>(high, low, close, vol, cnt)\<close>.\<close>

fun merge_rows ::
  "ohlcv list \<Rightarrow> real \<times> real \<times> real \<times> real \<times> nat \<Rightarrow> real \<times> real \<times> real \<times> real \<times> nat" where
  "merge_rows [] (high, low, close, vol, cnt) = (high, low, close, vol, cnt)"
| "merge_rows (row # tmp) (high, low, close, vol, cnt) =
     merge_rows tmp
       (max high (High row), min low (Low row), Close row, vol + Volume row, cnt + 1)"

text \<open>\<^verbatim>\<open>merge_data(data, start, jump)\<close>; the five \<^verbatim>\<open>None\<close>s of the empty bucket are \<open>None\<close>,
  otherwise the result is \<open>(high, low, open, close, vol)\<close>.\<close>

definition merge_data ::
  "ohlcv list \<Rightarrow> int \<Rightarrow> int \<Rightarrow> (real \<times> real \<times> real \<times> real \<times> real) option" where
  "merge_data data start jump =
     (let tmp = filter (\<lambda>r. Timestamp r \<ge> real_of_int start) data;
          tmp = filter (\<lambda>r. Timestamp r < real_of_int (start + jump)) tmp
      in case tmp of
           [] \<Rightarrow> None
         | row0 # rest \<Rightarrow>
             (let (high, low, close, vol, cnt) =
                    merge_rows tmp (High row0, Low row0, Close row0, 0, 1)
              in Some (high, low, Open row0, close, vol)))"

text \<open>The loop of \<^verbatim>\<open>process_data\<close> over the bucket starts, appending to \<^verbatim>\<open>new_df\<close>.\<close>

fun process_loop :: "ohlcv list \<Rightarrow> int \<Rightarrow> int list \<Rightarrow> ohlcv list \<Rightarrow> ohlcv list" where
  "process_loop data jumps [] new_df = new_df"
| "process_loop data jumps (i # is) new_df =
     (case merge_data data i jumps of
        None \<Rightarrow> process_loop data jumps is new_df
      | Some (high, low, open', close, vol) \<Rightarrow>
          process_loop data jumps is
            (new_df @ [\<lparr>Timestamp = real_of_int i, High = high, Low = low, Open = open',
                         Close = close, Volume = vol\<rparr>]))"

text \<open>\<^verbatim>\<open>process_data\<close>: the bucket starts are \<^verbatim>\<open>range(start, stop - 3600, self.jumps)\<close>.\<close>

definition process_data ::
  "data_converter \<Rightarrow> ohlcv list \<Rightarrow> int \<Rightarrow> int \<Rightarrow> py_error + ohlcv list" where
  "process_data self df start_date end_date =
     (let (data, start, stop) = load_data df start_date end_date
      in err_bind (py_range start (stop - 3600) (dc_jumps self)) (\<lambda>idx.
           Inr (process_loop data (dc_jumps self) idx [])))"

text \<open>The records of a table that fall into the bucket \<open>[start, start + jump)\<close>, in the
  table's order.\<close>

definition bucket :: "ohlcv list \<Rightarrow> int \<Rightarrow> int \<Rightarrow> ohlcv list" where
  "bucket data start jump =
     filter (\<lambda>r. real_of_int start \<le> Timestamp r \<and> Timestamp r < real_of_int (start + jump)) data"

text \<open>Two 30-second records that fall into one 60-second bucket, and two records one hour
  apart.\<close>

definition example_ticks :: "ohlcv list" where
  "example_ticks =
     [\<lparr>Timestamp = 0, High = 10, Low = 8, Open = 9, Close = 9, Volume = 2\<rparr>,
      \<lparr>Timestamp = 30, High = 12, Low = 7, Open = 9, Close = 11, Volume = 3\<rparr>]"

definition example_hours :: "ohlcv list" where
  "example_hours =
     [\<lparr>Timestamp = 0, High = 10, Low = 8, Open = 9, Close = 9, Volume = 2\<rparr>,
      \<lparr>Timestamp = 3600, High = 12, Low = 7, Open = 9, Close = 11, Volume = 3\<rparr>]"

section \<open>DataConverter (dataset.py): ratio split\<close>

text \<open>\<^verbatim>\<open>int(x)\<close> on a float: truncation towards zero.\<close>

definition py_int :: "real \<Rightarrow> int" where
  "py_int x = (if x \<ge> 0 then \<lfloor>x\<rfloor> else \<lceil>x\<rceil>)"

text \<open>
  Lines 250--258. The two ratios are read from the object, \<^verbatim>\<open>self.train_ratio\<close> first.
  \<^verbatim>\<open>random.shuffle(total)\<close> permutes the list of row positions in place; the permutation
  that the generator draws is the argument \<open>shuffle\<close>. The three slices are Python slices,
  with \<^verbatim>\<open>-n_test\<close> as written.
\<close>

definition split_indices ::
  "data_converter \<Rightarrow> nat \<Rightarrow> (nat list \<Rightarrow> nat list)
     \<Rightarrow> py_error + nat list \<times> nat list \<times> nat list" where
  "split_indices self n shuffle =
     err_bind (read_attr (dc_train_ratio self)) (\<lambda>train_ratio.
       (let n_train = py_int (train_ratio * real n)
        in err_bind (read_attr (dc_test_ratio self)) (\<lambda>test_ratio.
             (let n_test = py_int (test_ratio * real n);
                  total = shuffle [0 ..< n];
                  train = sort (py_slice None (Some n_train) total);
                  val = sort (py_slice (Some n_train) (Some (- n_test)) total);
                  test = sort (py_slice (Some (- n_test)) None total)
              in Inr (train, val, test)))))"

text \<open>\<^verbatim>\<open>data.iloc[positions]\<close>: the rows at the positions, IndexError for a position outside
  the table.\<close>

definition iloc_list :: "'a list \<Rightarrow> nat list \<Rightarrow> py_error + 'a list" where
  "iloc_list data idx =
     (if \<forall>i \<in> set idx. i < length data then Inr (map (\<lambda>i. data ! i) idx) else Inl IndexError)"

text \<open>The ratio branch of \<^verbatim>\<open>split\<close> (taken when the configuration has a
  \<^verbatim>\<open>train_ratio\<close>); the other branch cuts by date intervals.\<close>

definition split_ratio ::
  "data_converter \<Rightarrow> 'a list \<Rightarrow> (nat list \<Rightarrow> nat list) \<Rightarrow> py_error + 'a list \<times> 'a list \<times> 'a list" where
  "split_ratio self data shuffle =
     err_bind (split_indices self (length data) shuffle) (\<lambda>(train, val, test).
       err_bind (iloc_list data train) (\<lambda>train.
       err_bind (iloc_list data val) (\<lambda>val.
       err_bind (iloc_list data test) (\<lambda>test.
         Inr (train, val, test)))))"

section \<open>ClassificationTransform (dataset.py)\<close>

text \<open>
  Normalisation factors: a dict from column name to a dict with the keys \<^verbatim>\<open>'min'\<close> and
  \<^verbatim>\<open>'max'\<close>. The attribute \<^verbatim>\<open>self.factors\<close> may be \<^verbatim>\<open>None\<close>.
\<close>

type_synonym factors = "string \<rightharpoonup> (string \<rightharpoonup> real)"

record classification_transform =
  ct_factors :: "factors option"
  ct_y_key :: string
  ct_feature_keys :: "string list"
  ct_threshold :: real

text \<open>\<^verbatim>\<open>__init__\<close>: \<^verbatim>\<open>feature_keys or [...]\<close> takes the default for \<^verbatim>\<open>None\<close> and for
  an empty list.\<close>

definition ClassificationTransform_init ::
  "factors option \<Rightarrow> string \<Rightarrow> string list option \<Rightarrow> real \<Rightarrow> classification_transform" where
  "ClassificationTransform_init fs y_key feature_keys thr =
     \<lparr>ct_factors = fs, ct_y_key = y_key,
      ct_feature_keys =
        (case feature_keys of
           None \<Rightarrow> [''Open'', ''High'', ''Low'', ''Close'', ''Volume'']
         | Some ks \<Rightarrow> if ks = [] then [''Open'', ''High'', ''Low'', ''Close'', ''Volume''] else ks),
      ct_threshold = thr\<rparr>"

text \<open>\<^verbatim>\<open>d.get(key, default)\<close>.\<close>

definition dict_get :: "('k \<rightharpoonup> 'v) \<Rightarrow> 'k \<Rightarrow> 'v \<Rightarrow> 'v" where
  "dict_get d key dflt = (case d key of None \<Rightarrow> dflt | Some v \<Rightarrow> v)"

text \<open>\<^verbatim>\<open>min(values)\<close> and \<^verbatim>\<open>max(values)\<close>: ValueError on an empty sequence.\<close>

definition py_min :: "real list \<Rightarrow> py_error + real" where
  "py_min vs = (case vs of [] \<Rightarrow> Inl ValueError | v # rest \<Rightarrow> Inr (fold min rest v))"

definition py_max :: "real list \<Rightarrow> py_error + real" where
  "py_max vs = (case vs of [] \<Rightarrow> Inl ValueError | v # rest \<Rightarrow> Inr (fold max rest v))"

text \<open>The elementwise \<^verbatim>\<open>(values - min_val) / (max_val - min_val)\<close> on an array.\<close>

fun ct_scale_all :: "real list \<Rightarrow> real \<Rightarrow> real \<Rightarrow> py_error + real list" where
  "ct_scale_all [] min_val max_val = Inr []"
| "ct_scale_all (v # vs) min_val max_val =
     err_bind (fdiv (v - min_val) (max_val - min_val)) (\<lambda>v'.
     err_bind (ct_scale_all vs min_val max_val) (\<lambda>vs'. Inr (v' # vs')))"

text \<open>Lines 147--158: the loop over the feature keys. The defaults \<^verbatim>\<open>min(values)\<close> and
  \<^verbatim>\<open>max(values)\<close> are evaluated before the lookup, as Python evaluates arguments.\<close>

fun ct_features ::
  "factors option \<Rightarrow> frame \<Rightarrow> string list \<Rightarrow> real list list \<Rightarrow> py_error + real list list" where
  "ct_features fs features_df [] features = Inr features"
| "ct_features fs features_df (key # keys) features =
     err_bind (frame_col features_df key) (\<lambda>vals.
     err_bind
       (case fs of
          None \<Rightarrow> Inr vals
        | Some fm \<Rightarrow>
            (let factor = dict_get fm key Map.empty
             in err_bind (py_min vals) (\<lambda>dmin.
                err_bind (py_max vals) (\<lambda>dmax.
                  (let min_val = dict_get factor ''min'' dmin;
                       max_val = dict_get factor ''max'' dmax
                   in if max_val > min_val then ct_scale_all vals min_val max_val
                      else Inr vals)))))
       (\<lambda>vals. ct_features fs features_df keys (features @ [vals])))"

text \<open>Lines 167--174: the normalisation of the target \<open>y\<close> and of the previous target
  \<open>y_old\<close>, with the defaults 0 and 1 for absent factors.\<close>

definition ct_normalize_target ::
  "factors option \<Rightarrow> string \<Rightarrow> real \<times> real \<Rightarrow> py_error + real \<times> real" where
  "ct_normalize_target fs y_key yy =
     (case yy of (y, y_old) \<Rightarrow>
        (case fs of
           None \<Rightarrow> Inr (y, y_old)
         | Some fm \<Rightarrow>
             (let factor = dict_get fm y_key Map.empty;
                  min_val = dict_get factor ''min'' 0;
                  max_val = dict_get factor ''max'' 1
              in if max_val > min_val
                 then err_bind (fdiv (y - min_val) (max_val - min_val)) (\<lambda>y.
                      err_bind (fdiv (y_old - min_val) (max_val - min_val)) (\<lambda>y_old.
                        Inr (y, y_old)))
                 else Inr (y, y_old))))"

text \<open>Line 177: \<^verbatim>\<open>(y - y_old) / y_old if y_old != 0 else 0.0\<close>.\<close>

definition ct_returns :: "real \<Rightarrow> real \<Rightarrow> py_error + real" where
  "ct_returns y y_old = (if y_old \<noteq> 0 then fdiv (y - y_old) y_old else Inr 0)"

text \<open>\<^verbatim>\<open>df.iloc[k]\<close>: one row, IndexError outside the table; \<^verbatim>\<open>row[key]\<close>: KeyError for
  an absent column.\<close>

definition iloc_row :: "frame \<Rightarrow> int \<Rightarrow> py_error + (string \<Rightarrow> real)" where
  "iloc_row df k = py_get (rows df) k"

definition row_col :: "frame \<Rightarrow> (string \<Rightarrow> real) \<Rightarrow> string \<Rightarrow> py_error + real" where
  "row_col df row key = (if key \<in> set (columns df) then Inr (row key) else Inl KeyError)"

text \<open>
  \<^verbatim>\<open>ClassificationTransform.__call__\<close>. \<^verbatim>\<open>np.stack(features, axis=1)\<close> puts one feature
  column per key side by side: the elements in row-major order are the transposed list;
  it raises ValueError on an empty list.
\<close>

definition ct_call :: "classification_transform \<Rightarrow> frame \<Rightarrow> py_error + sample" where
  "ct_call self data =
     err_bind (iloc_row data (- 1)) (\<lambda>last_row.
     err_bind (row_col data last_row ''Timestamp'') (\<lambda>timestamp.
     (let features_df = iloc_slice None (Some (- 1)) data
      in err_bind (iloc_row data (- 1)) (\<lambda>current_values.
         err_bind (iloc_row data (- 2)) (\<lambda>previous_values.
         err_bind (ct_features (ct_factors self) features_df (ct_feature_keys self) [])
           (\<lambda>features.
         if features = [] then Inl ValueError else
         (let features = TensorF [length (rows features_df), length features]
                           (concat (transpose features))
          in err_bind (row_col data current_values (ct_y_key self)) (\<lambda>y.
             err_bind (row_col data previous_values (ct_y_key self)) (\<lambda>y_old.
             err_bind (ct_normalize_target (ct_factors self) (ct_y_key self) (y, y_old))
               (\<lambda>(y, y_old).
             err_bind (ct_returns y y_old) (\<lambda>returns.
               Inr (Map.empty
                     (''features'' \<mapsto> features,
                      ct_y_key self \<mapsto> TensorF [] [y],
                      ct_y_key self @ ''_old'' \<mapsto> TensorF [] [y_old],
                      ''returns'' \<mapsto> TensorF [] [returns],
                      ''timestamp'' \<mapsto> TensorF [] [timestamp])))))))))))))"

section \<open>BaseModule (base\_module.py): denormalisation\<close>

record base_module =
  bm_y_key :: string
  bm_threshold :: real
  bm_normalization_coeffs :: "(real \<times> real) option"

text \<open>\<^verbatim>\<open>set_normalization_coeffs\<close>: \<^verbatim>\<open>factors.get(self.y_key)\<close> is None for an absent
  column and \<^verbatim>\<open>None.get\<close> raises AttributeError; an absent \<^verbatim>\<open>'max'\<close> or \<^verbatim>\<open>'min'\<close> is
  None and the subtraction raises TypeError.\<close>

definition set_normalization_coeffs :: "base_module \<Rightarrow> factors \<Rightarrow> py_error + base_module" where
  "set_normalization_coeffs self fm =
     (case fm (bm_y_key self) of
        None \<Rightarrow> Inl AttributeError
      | Some factor \<Rightarrow>
          (case (factor ''max'', factor ''min'') of
             (Some mx, Some mn) \<Rightarrow>
               (let scale = mx - mn; shift = mn
                in Inr (self\<lparr>bm_normalization_coeffs := Some (scale, shift)\<rparr>))
           | _ \<Rightarrow> Inl TypeError))"

text \<open>\<^verbatim>\<open>denormalize(y, y_hat=None)\<close> on the elements of the batch tensors; the result is
  \<open>y\<close> alone or the pair.\<close>

datatype denormalized = One "real list" | Two "real list" "real list"

definition denormalize :: "base_module \<Rightarrow> real list \<Rightarrow> real list option \<Rightarrow> denormalized" where
  "denormalize self y y_hat =
     (case bm_normalization_coeffs self of
        Some (scale, shift) \<Rightarrow>
          (let y = map (\<lambda>v. v * scale + shift) y
           in case y_hat of
                Some yh \<Rightarrow> Two y (map (\<lambda>v. v * scale + shift) yh)
              | None \<Rightarrow> One y)
      | None \<Rightarrow> One y)"

text \<open>Factors for the examples: the close price ranges over \<open>[50, 150]\<close>; and a degenerate
  pair with equal minimum and maximum.\<close>

definition example_factors :: factors where
  "example_factors = [''Close'' \<mapsto> [''min'' \<mapsto> 50, ''max'' \<mapsto> 150]]"

definition example_flat_factors :: factors where
  "example_flat_factors = [''Close'' \<mapsto> [''min'' \<mapsto> 100, ''max'' \<mapsto> 100]]"

definition example_module :: base_module where
  "example_module =
     \<lparr>bm_y_key = ''Close'', bm_threshold = 1 / 1000, bm_normalization_coeffs = None\<rparr>"

text \<open>A series whose close price falls to zero twice, as a classification dataset with a
  window of one bar.\<close>

definition example_zero_frame :: frame where
  "example_zero_frame =
     \<lparr>columns = [''Timestamp'', ''Open'', ''High'', ''Low'', ''Close''],
      rows = map (\<lambda>c key. if key = ''Close'' then c else 1) [100, 0, 50, 0, 7]\<rparr>"

definition example_zero_dataset :: dataset where
  "example_zero_dataset =
     \<lparr>ds_data = example_zero_frame, ds_window_size = 1, ds_task_type = ''classification'',
      ds_y_key = ''Close'', ds_threshold = 1 / 1000, ds_returns = None\<rparr>"

text \<open>Reading one entry of the result of a transform call (nothing when it raised).\<close>

definition sample_field :: "py_error + sample \<Rightarrow> string \<Rightarrow> pyval option" where
  "sample_field res key = (case res of Inl e \<Rightarrow> None | Inr s \<Rightarrow> s key)"

text \<open>Two windows of two bars each, the second one with the extra column
  \<^verbatim>\<open>Timestamp_orig\<close>, and a transform as the training script builds it.\<close>

definition example_window :: frame where
  "example_window =
     \<lparr>columns = [''Timestamp'', ''Open'', ''High'', ''Low'', ''Close''],
      rows = [example_bar 0, example_bar 1]\<rparr>"

definition example_window_orig :: frame where
  "example_window_orig =
     \<lparr>columns = [''Timestamp'', ''Open'', ''High'', ''Low'', ''Close'', ''Timestamp_orig''],
      rows = [example_bar 0, example_bar 1]\<rparr>"

definition example_transform :: data_transform where
  "example_transform = DataTransform_init True False ''regression'' (1 / 10000) ''Close''"

text \<open>A classification dataset with the threshold 0.001 over closes 100, 100, 100.05, 100,
  and a classification transform with the threshold 0.0001.\<close>

definition example_cls_dataset :: dataset where
  "example_cls_dataset =
     \<lparr>ds_data =
        \<lparr>columns = [''Timestamp'', ''Open'', ''High'', ''Low'', ''Close''],
         rows = map (\<lambda>c key. if key = ''Close'' then c else 1) [100, 100, 2001 / 20, 100]\<rparr>,
      ds_window_size = 1, ds_task_type = ''classification'',
      ds_y_key = ''Close'', ds_threshold = 1 / 1000, ds_returns = Some [0, 1 / 2000]\<rparr>"

definition example_cls_transform :: data_transform where
  "example_cls_transform =
     DataTransform_init False False ''classification'' (1 / 10000) ''Close''"

section \<open>Properties of the discretisation\<close>

lemma masked_assign_map:
  "masked_assign (map f rs) (map p rs) v = map (\<lambda>r. if p r then v else f r) rs"
  by (induction rs) (simp_all add: masked_assign_def)

lemma zeros_like_map: "zeros_like rs = map (\<lambda>r. 0) rs"
  by (simp add: zeros_like_def map_replicate_const)

lemma dt_labels_tensor_map:
  "dt_labels_tensor t rs =
     map (\<lambda>r. if r > t then 2 else if r \<ge> - t \<and> r \<le> t then 1 else 0) rs"
  by (simp add: dt_labels_tensor_def zeros_like_map masked_assign_map)

lemma ds_labels_tensor_map:
  "ds_labels_tensor t rs =
     map (\<lambda>r. if r > t then 2 else if r \<ge> - t \<and> r \<le> t then 1 else 0) rs"
  by (simp add: ds_labels_tensor_def zeros_like_map masked_assign_map)

lemma bm_labels_tensor_map:
  "bm_labels_tensor t rs =
     map (\<lambda>r. if r > t then 2 else if r \<ge> - t \<and> r \<le> t then 1 else 0) rs"
  by (simp add: bm_labels_tensor_def zeros_like_map masked_assign_map)

text \<open>
  C2. With a threshold \<open>t \<ge> 0\<close>, \<^verbatim>\<open>DataTransform.create_class_labels\<close> gives class 0
  exactly when \<open>returns < - t\<close>, class 1 exactly when \<open>- t \<le> returns \<le> t\<close> and class 2 exactly
  when \<open>returns > t\<close>, on a scalar and on a tensor element alike; every value gets one of the
  three classes, both boundary values \<open>- t\<close> and \<open>t\<close> are stationary, and with a threshold of
  zero the stationary class is the single point \<open>returns = 0\<close>.
\<close>

theorem create_class_labels_partition:
  assumes "0 \<le> t"
  shows "(dt_create_class_labels t (PyFloat r) = TensorL [] [0] \<longleftrightarrow> r < - t)
       \<and> (dt_create_class_labels t (PyFloat r) = TensorL [] [1] \<longleftrightarrow> - t \<le> r \<and> r \<le> t)
       \<and> (dt_create_class_labels t (PyFloat r) = TensorL [] [2] \<longleftrightarrow> t < r)
       \<and> (dt_create_class_labels t (TensorF [] [r]) = TensorL [] [0] \<longleftrightarrow> r < - t)
       \<and> (dt_create_class_labels t (TensorF [] [r]) = TensorL [] [1] \<longleftrightarrow> - t \<le> r \<and> r \<le> t)
       \<and> (dt_create_class_labels t (TensorF [] [r]) = TensorL [] [2] \<longleftrightarrow> t < r)
       \<and> dt_label_scalar t r \<in> {0, 1, 2}
       \<and> set (dt_labels_tensor t rs) \<subseteq> {0, 1, 2}
       \<and> dt_label_scalar t (- t) = 1 \<and> dt_label_scalar t t = 1
       \<and> dt_labels_tensor t [- t, t] = [1, 1]
       \<and> (dt_label_scalar 0 r = 1 \<longleftrightarrow> r = 0)
       \<and> (dt_labels_tensor 0 [r] = [1] \<longleftrightarrow> r = 0)"
proof -
  have scalar: "dt_label_scalar t r = (if r < - t then 0 else if r \<le> t then 1 else 2)"
    by (simp add: dt_label_scalar_def)
  have tensor: "dt_labels_tensor t [r] = [if r < - t then 0 else if r \<le> t then 1 else 2]"
    using assms by (simp add: dt_labels_tensor_map)
  have bounds: "dt_labels_tensor t [- t, t] = [1, 1]"
    using assms by (simp add: dt_labels_tensor_map)
  have range: "set (dt_labels_tensor t rs) \<subseteq> {0, 1, 2}"
    by (auto simp add: dt_labels_tensor_map)
  have zero_s: "dt_label_scalar 0 r = 1 \<longleftrightarrow> r = 0"
    by (simp add: dt_label_scalar_def)
  have zero_t: "dt_labels_tensor 0 [r] = [1] \<longleftrightarrow> r = 0"
    by (simp add: dt_labels_tensor_map)
  have edges: "dt_label_scalar t (- t) = 1 \<and> dt_label_scalar t t = 1"
    using assms by (simp add: dt_label_scalar_def)
  show ?thesis
    using assms scalar tensor bounds range zero_s zero_t edges by simp
qed

theorem create_class_labels_partition_witness:
  "(0::real) \<le> 1 / 1000
   \<and> dt_create_class_labels (1 / 1000) (PyFloat (1 / 2000)) = TensorL [] [1]
   \<and> dt_create_class_labels (1 / 1000) (TensorF [] [1 / 2000]) = TensorL [] [1]
   \<and> dt_create_class_labels (1 / 1000) (PyFloat (1 / 2000)) \<noteq> TensorL [] [0]"
  using create_class_labels_partition [of "1 / 1000" "1 / 2000" "[]"] by simp

text \<open>
  C3. With a shared threshold \<open>t \<ge> 0\<close> all labelling code agrees: in the transform and in
  the dataset the tensor branch labels every element as the scalar branch labels that value,
  and the transform, the dataset and the training module give the same classes.
\<close>

theorem create_class_labels_agree:
  assumes "0 \<le> t"
  shows "dt_labels_tensor t rs = map (dt_label_scalar t) rs
       \<and> ds_labels_tensor t rs = map (ds_label_scalar t) rs
       \<and> dt_label_scalar t r = ds_label_scalar t r
       \<and> dt_labels_tensor t rs = ds_labels_tensor t rs
       \<and> bm_labels_tensor t rs = dt_labels_tensor t rs
       \<and> bm_labels_tensor t rs = map (ds_label_scalar t) rs
       \<and> dt_create_class_labels t (TensorF sh rs) = ds_create_class_labels t (TensorF sh rs)"
proof -
  have same: "(if x > t then 2 else if x \<ge> - t \<and> x \<le> t then 1 else 0)
              = (if x < - t then 0 else if x \<le> t then 1 else (2::nat))" for x
    using assms by simp
  have dt: "dt_labels_tensor t rs = map (dt_label_scalar t) rs"
    unfolding dt_labels_tensor_map dt_label_scalar_def using same by simp
  have ds: "ds_labels_tensor t rs = map (ds_label_scalar t) rs"
    unfolding ds_labels_tensor_map ds_label_scalar_def using same by simp
  have sc: "dt_label_scalar t = ds_label_scalar t"
    by (simp add: dt_label_scalar_def ds_label_scalar_def fun_eq_iff)
  have bm: "bm_labels_tensor t rs = dt_labels_tensor t rs"
    by (simp add: bm_labels_tensor_map dt_labels_tensor_map)
  show ?thesis
    using dt ds sc bm by simp
qed

theorem create_class_labels_agree_witness:
  "(0::real) \<le> 1 / 1000
   \<and> bm_labels_tensor (1 / 1000) [- 1 / 100, 1 / 2000, 1 / 1000, 1 / 50]
       = map (ds_label_scalar (1 / 1000)) [- 1 / 100, 1 / 2000, 1 / 1000, 1 / 50]
   \<and> dt_labels_tensor (1 / 1000) [- 1 / 100, 1 / 2000, 1 / 1000, 1 / 50] = [0, 1, 1, 2]"
  using create_class_labels_agree [of "1 / 1000" "[- 1 / 100, 1 / 2000, 1 / 1000, 1 / 50]"]
  by (simp add: dt_label_scalar_def ds_label_scalar_def)

section \<open>Properties of the window sampler\<close>

lemma take_drop_nth:
  "n + m \<le> length xs \<Longrightarrow> take m (drop n xs) = map (\<lambda>k. xs ! (n + k)) [0 ..< m]"
  by (rule nth_equalityI) simp_all

lemma py_slice_inside:
  assumes "0 \<le> a" "a \<le> b" "b \<le> int (length xs)"
  shows "py_slice (Some a) (Some b) xs
         = map (\<lambda>k. xs ! (nat a + k)) [0 ..< nat (b - a)]"
proof -
  have "slice_bound (length xs) a = a" "slice_bound (length xs) b = b"
    using assms by (simp_all add: slice_bound_def)
  moreover have "nat a + nat (b - a) \<le> length xs"
    using assms by linarith
  ultimately show ?thesis
    by (simp add: py_slice_def take_drop_nth)
qed

lemma ds_window_rows:
  assumes "0 \<le> i" "i < ds_len self"
  shows "rows (ds_window self i)
         = map (\<lambda>k. rows (ds_data self) ! (nat i + k)) [0 ..< ds_window_size self + 1]"
proof -
  have le: "i + int (ds_window_size self) + 1 \<le> int (length (rows (ds_data self)))"
    using assms by (simp add: ds_len_def)
  have "nat (i + int (ds_window_size self) + 1 - i) = ds_window_size self + 1"
    by simp
  with py_slice_inside [OF assms(1) _ le] show ?thesis
    by (simp add: ds_window_def iloc_slice_def)
qed

text \<open>
  C1. The size of the sampler is \<open>max(0, length - window_size - 1)\<close>. For every index \<open>i\<close> in
  \<open>[0, size)\<close> the window has the table's columns and is made of the \<open>window_size + 1\<close> bars at
  the offsets \<open>i, ..., i + window_size\<close>, all of them inside the table. For six bars and a
  window size of 3 the size is 2, index 0 gives bars 0 to 3 and index 1 gives bars 1 to 4.
\<close>

theorem window_sampler:
  "ds_len self = max 0 (int (length (rows (ds_data self))) - int (ds_window_size self) - 1)
   \<and> (\<forall>i. 0 \<le> i \<and> i < ds_len self \<longrightarrow>
          rows (ds_window self i)
            = map (\<lambda>k. rows (ds_data self) ! (nat i + k)) [0 ..< ds_window_size self + 1]
        \<and> length (rows (ds_window self i)) = ds_window_size self + 1
        \<and> nat i + ds_window_size self < length (rows (ds_data self))
        \<and> columns (ds_window self i) = columns (ds_data self))
   \<and> ds_len (self\<lparr>ds_data := \<lparr>columns = cs, rows = [b0, b1, b2, b3, b4, b5]\<rparr>,
                   ds_window_size := 3\<rparr>) = 2
   \<and> rows (ds_window (self\<lparr>ds_data := \<lparr>columns = cs, rows = [b0, b1, b2, b3, b4, b5]\<rparr>,
                           ds_window_size := 3\<rparr>) 0) = [b0, b1, b2, b3]
   \<and> rows (ds_window (self\<lparr>ds_data := \<lparr>columns = cs, rows = [b0, b1, b2, b3, b4, b5]\<rparr>,
                           ds_window_size := 3\<rparr>) 1) = [b1, b2, b3, b4]"
proof -
  have size: "ds_len self
              = max 0 (int (length (rows (ds_data self))) - int (ds_window_size self) - 1)"
    by (simp add: ds_len_def)
  have win: "rows (ds_window self i)
               = map (\<lambda>k. rows (ds_data self) ! (nat i + k)) [0 ..< ds_window_size self + 1]
             \<and> length (rows (ds_window self i)) = ds_window_size self + 1
             \<and> nat i + ds_window_size self < length (rows (ds_data self))
             \<and> columns (ds_window self i) = columns (ds_data self)"
    if "0 \<le> i \<and> i < ds_len self" for i
  proof -
    have r: "rows (ds_window self i)
             = map (\<lambda>k. rows (ds_data self) ! (nat i + k)) [0 ..< ds_window_size self + 1]"
      using that by (simp add: ds_window_rows)
    have l: "length (rows (ds_window self i)) = ds_window_size self + 1"
      unfolding r by simp
    have b: "nat i + ds_window_size self < length (rows (ds_data self))"
      using that by (simp add: ds_len_def) linarith
    have c: "columns (ds_window self i) = columns (ds_data self)"
      by (simp add: ds_window_def iloc_slice_def)
    show ?thesis using r l b c by simp
  qed
  have ex_len: "ds_len (self\<lparr>ds_data := \<lparr>columns = cs, rows = [b0, b1, b2, b3, b4, b5]\<rparr>,
                   ds_window_size := 3\<rparr>) = 2"
    by (simp add: ds_len_def)
  have ex0: "rows (ds_window (self\<lparr>ds_data := \<lparr>columns = cs, rows = [b0, b1, b2, b3, b4, b5]\<rparr>,
                           ds_window_size := 3\<rparr>) 0) = [b0, b1, b2, b3]"
    by (simp add: ds_window_def iloc_slice_def py_slice_def slice_bound_def)
  have ex1: "rows (ds_window (self\<lparr>ds_data := \<lparr>columns = cs, rows = [b0, b1, b2, b3, b4, b5]\<rparr>,
                           ds_window_size := 3\<rparr>) 1) = [b1, b2, b3, b4]"
    by (simp add: ds_window_def iloc_slice_def py_slice_def slice_bound_def)
  show ?thesis
    using size win ex_len ex0 ex1 by blast
qed

theorem window_sampler_witness:
  "(0::int) \<le> 1 \<and> 1 < ds_len example_dataset
   \<and> map (\<lambda>r. r ''Timestamp'') (rows (ds_window example_dataset 1)) = [60, 120, 180, 240]"
proof -
  have h: "(0::int) \<le> 1 \<and> 1 < ds_len example_dataset"
    by (simp add: ds_len_def example_dataset_def example_frame_def)
  have "rows (ds_window example_dataset 1)
        = map (\<lambda>k. rows (ds_data example_dataset) ! (nat 1 + k))
            [0 ..< ds_window_size example_dataset + 1]"
    using window_sampler [of example_dataset] h by blast
  then show ?thesis
    using h by (simp add: example_dataset_def example_frame_def upt_rec example_bar_def)
qed

section \<open>Properties of the aggregation\<close>

lemma merge_rows_result:
  "merge_rows tmp (high, low, close, vol, cnt)
   = (fold max (map High tmp) high, fold min (map Low tmp) low,
      (if tmp = [] then close else Close (last tmp)),
      vol + sum_list (map Volume tmp), cnt + length tmp)"
proof (induction tmp arbitrary: high low close vol cnt)
  case Nil
  show ?case by simp
next
  case (Cons row tmp)
  show ?case
    by (simp add: Cons.IH max.commute min.commute add.assoc)
qed

lemma merge_data_bucket:
  "merge_data data start jump
   = (case bucket data start jump of
        [] \<Rightarrow> None
      | row0 # rest \<Rightarrow>
          Some (Max (set (map High (row0 # rest))), Min (set (map Low (row0 # rest))),
                Open row0, Close (last (row0 # rest)),
                sum_list (map Volume (row0 # rest))))"
proof -
  have b: "filter (\<lambda>r. Timestamp r < real_of_int (start + jump))
             (filter (\<lambda>r. Timestamp r \<ge> real_of_int start) data) = bucket data start jump"
    by (simp add: bucket_def conj_commute)
  show ?thesis
  proof (cases "bucket data start jump")
    case Nil
    then show ?thesis
      using b by (simp add: merge_data_def)
  next
    case (Cons row0 rest)
    have hi: "fold max (map High rest) (High row0) = Max (set (map High (row0 # rest)))"
      using Max.set_eq_fold [of "High row0" "map High rest"] by simp
    have lo: "fold min (map Low rest) (Low row0) = Min (set (map Low (row0 # rest)))"
      using Min.set_eq_fold [of "Low row0" "map Low rest"] by simp
    have "merge_rows (row0 # rest) (High row0, Low row0, Close row0, 0, 1)
          = (Max (set (map High (row0 # rest))), Min (set (map Low (row0 # rest))),
             Close (last (row0 # rest)), sum_list (map Volume (row0 # rest)),
             1 + length (row0 # rest))"
      unfolding merge_rows_result hi [symmetric] lo [symmetric] by simp
    then show ?thesis
      using b Cons by (simp add: merge_data_def)
  qed
qed

text \<open>
  C5. For every non-empty bucket of records the aggregated bar has the open of the first
  record in bucket order, the close of the last record, the maximum of all highs, the minimum
  of all lows and the sum of all volumes.
\<close>

theorem merge_data_ohlcv:
  assumes "bucket data start jump \<noteq> []"
  shows "merge_data data start jump
         = Some (Max (set (map High (bucket data start jump))),
                 Min (set (map Low (bucket data start jump))),
                 Open (hd (bucket data start jump)),
                 Close (last (bucket data start jump)),
                 sum_list (map Volume (bucket data start jump)))"
proof -
  obtain row0 rest where b: "bucket data start jump = row0 # rest"
    using assms by (cases "bucket data start jump") simp_all
  show ?thesis
    unfolding merge_data_bucket b by simp
qed

theorem merge_data_ohlcv_witness:
  "bucket example_ticks 0 60 \<noteq> []
   \<and> merge_data example_ticks 0 60 = Some (12, 7, 9, 11, 5)"
  using merge_data_ohlcv [of example_ticks 0 60]
  by (simp add: example_ticks_def bucket_def)

lemma int_less_div_iff:
  fixes s :: int
  assumes "0 < s"
  shows "k < a div s \<longleftrightarrow> (k + 1) * s \<le> a"
proof -
  have "(a - k * s) div s = a div s - k"
    using assms div_mult_self1 [of s a "- k"] by simp
  moreover have "0 < (a - k * s) div s \<longleftrightarrow> s \<le> a - k * s"
    using assms by (rule pos_imp_zdiv_pos_iff)
  ultimately have "0 < a div s - k \<longleftrightarrow> s \<le> a - k * s"
    by simp
  then show ?thesis
    by (simp add: algebra_simps)
qed

lemma py_range_pos:
  assumes "0 < step"
  shows "\<exists>idx. py_range start stop step = Inr idx
           \<and> (\<forall>t. t \<in> set idx \<longleftrightarrow> (\<exists>k::nat. t = start + int k * step) \<and> t < stop)
           \<and> sorted idx \<and> distinct idx"
proof -
  define n where "n = nat ((stop - start + step - 1) div step)"
  define idx where "idx = map (\<lambda>k. start + int k * step) [0 ..< n]"
  have r: "py_range start stop step = Inr idx"
    using assms by (simp add: py_range_def idx_def n_def)
  have lt: "k < n \<longleftrightarrow> start + int k * step < stop" for k
  proof -
    have "k < n \<longleftrightarrow> int k < (stop - start + step - 1) div step"
      unfolding n_def by linarith
    also have "\<dots> \<longleftrightarrow> (int k + 1) * step \<le> stop - start + step - 1"
      using assms by (rule int_less_div_iff)
    also have "\<dots> \<longleftrightarrow> start + int k * step < stop"
      by (simp add: distrib_right) linarith
    finally show ?thesis .
  qed
  have mem: "t \<in> set idx \<longleftrightarrow> (\<exists>k::nat. t = start + int k * step) \<and> t < stop" for t
  proof
    assume "t \<in> set idx"
    then obtain k where "k < n" "t = start + int k * step"
      unfolding idx_def by auto
    then show "(\<exists>k::nat. t = start + int k * step) \<and> t < stop"
      using lt by blast
  next
    assume "(\<exists>k::nat. t = start + int k * step) \<and> t < stop"
    then obtain k :: nat where k: "t = start + int k * step" "t < stop"
      by blast
    then have "k < n" using lt by simp
    then have "k \<in> set [0 ..< n]" by simp
    then have "start + int k * step \<in> set idx"
      unfolding idx_def set_map by (rule imageI)
    then show "t \<in> set idx"
      using k by simp
  qed
  have s: "sorted idx"
    unfolding sorted_iff_nth_mono
  proof (intro allI impI)
    fix i j assume "i \<le> j" "j < length idx"
    then have "idx ! i = start + int i * step" "idx ! j = start + int j * step"
      by (simp_all add: idx_def)
    then show "idx ! i \<le> idx ! j"
      using assms \<open>i \<le> j\<close> by (simp add: mult_right_mono)
  qed
  have "inj_on (\<lambda>k. start + int k * step) (set [0 ..< n])"
    by (rule inj_onI) (use assms in simp)
  then have d: "distinct idx"
    unfolding idx_def by (simp add: distinct_map)
  show ?thesis using r mem s d by blast
qed

lemma merge_data_None_iff: "merge_data data i jumps = None \<longleftrightarrow> bucket data i jumps = []"
  unfolding merge_data_bucket by (simp split: list.split)

lemma process_loop_append:
  "process_loop data jumps idx new_df = new_df @ process_loop data jumps idx []"
proof (induction idx arbitrary: new_df)
  case Nil
  show ?case by simp
next
  case (Cons i idx)
  show ?case
  proof (cases "merge_data data i jumps")
    case None
    then show ?thesis using Cons.IH [of new_df] by simp
  next
    case (Some v)
    obtain high low open' close vol where v: "v = (high, low, open', close, vol)"
      by (cases v)
    show ?thesis
      using Some v Cons.IH [of "new_df @ [\<lparr>Timestamp = real_of_int i, High = high, Low = low,
              Open = open', Close = close, Volume = vol\<rparr>]"]
        Cons.IH [of "[\<lparr>Timestamp = real_of_int i, High = high, Low = low,
              Open = open', Close = close, Volume = vol\<rparr>]"]
      by simp
  qed
qed

lemma process_loop_timestamps:
  "map Timestamp (process_loop data jumps idx [])
   = map real_of_int (filter (\<lambda>i. bucket data i jumps \<noteq> []) idx)"
proof (induction idx)
  case Nil
  show ?case by simp
next
  case (Cons i idx)
  show ?case
  proof (cases "merge_data data i jumps")
    case None
    then have "bucket data i jumps = []"
      using merge_data_None_iff [of data i jumps] by simp
    then show ?thesis using None Cons.IH by simp
  next
    case (Some v)
    obtain high low open' close vol where v: "v = (high, low, open', close, vol)"
      by (cases v)
    have ne: "bucket data i jumps \<noteq> []"
      using Some merge_data_None_iff [of data i jumps] by simp
    show ?thesis
      using Some v ne Cons.IH
        process_loop_append [of data jumps idx "[\<lparr>Timestamp = real_of_int i, High = high,
          Low = low, Open = open', Close = close, Volume = vol\<rparr>]"]
      by simp
  qed
qed

lemma process_loop_bars:
  "b \<in> set (process_loop data jumps idx []) \<Longrightarrow>
   \<exists>i \<in> set idx. Timestamp b = real_of_int i
      \<and> merge_data data i jumps = Some (High b, Low b, Open b, Close b, Volume b)"
proof (induction idx)
  case Nil
  then show ?case by simp
next
  case (Cons i idx)
  show ?case
  proof (cases "merge_data data i jumps")
    case None
    then show ?thesis using Cons by simp
  next
    case (Some v)
    obtain high low open' close vol where v: "v = (high, low, open', close, vol)"
      by (cases v)
    let ?bar = "\<lparr>Timestamp = real_of_int i, High = high, Low = low, Open = open',
                  Close = close, Volume = vol\<rparr>"
    have "process_loop data jumps (i # idx) [] = ?bar # process_loop data jumps idx []"
      using Some v process_loop_append [of data jumps idx "[?bar]"] by simp
    then have "b = ?bar \<or> b \<in> set (process_loop data jumps idx [])"
      using Cons.prems by simp
    then show ?thesis
    proof
      assume "b = ?bar"
      then show ?thesis using Some v by simp
    next
      assume "b \<in> set (process_loop data jumps idx [])"
      then show ?thesis using Cons.IH by simp
    qed
  qed
qed

lemma sorted_map_real_of_int: "sorted xs \<Longrightarrow> sorted (map real_of_int xs)"
  by (induction xs) auto

text \<open>
  C4, amended. For a positive bucket width the aggregator returns a table with exactly one
  bar for every non-empty bucket whose start is \<open>start + k * width\<close> and lies in
  \<open>[start, end - 3600)\<close>: the bucket starts advance in fixed-width steps from \<open>start\<close> and stop
  one hour before the end boundary. A bucket holds the records of the table cut to
  \<open>[start, end)\<close> with a timestamp in \<open>[bucket start, bucket start + width)\<close>; a bucket with
  no record produces no bar, and every bar is the merge of its bucket.
\<close>

theorem process_data_buckets:
  assumes "0 < dc_jumps self"
  shows "\<exists>bars. process_data self df start stop = Inr bars
           \<and> (\<forall>t. (\<exists>b \<in> set bars. Timestamp b = real_of_int t) \<longleftrightarrow>
                  ((\<exists>k::nat. t = start + int k * dc_jumps self) \<and> t < stop - 3600
                   \<and> bucket (fst (load_data df start stop)) t (dc_jumps self) \<noteq> []))
           \<and> distinct (map Timestamp bars) \<and> sorted (map Timestamp bars)
           \<and> (\<forall>b \<in> set bars. \<exists>t. Timestamp b = real_of_int t
                  \<and> merge_data (fst (load_data df start stop)) t (dc_jumps self)
                      = Some (High b, Low b, Open b, Close b, Volume b))"
proof -
  define data where "data = fst (load_data df start stop)"
  obtain idx where idx: "py_range start (stop - 3600) (dc_jumps self) = Inr idx"
    and mem: "\<And>t. t \<in> set idx \<longleftrightarrow> (\<exists>k::nat. t = start + int k * dc_jumps self) \<and> t < stop - 3600"
    and srt: "sorted idx" and dst: "distinct idx"
    using py_range_pos [OF assms, of start "stop - 3600"] by blast
  define bars where "bars = process_loop data (dc_jumps self) idx []"
  have run: "process_data self df start stop = Inr bars"
    using idx by (simp add: process_data_def load_data_def err_bind_def bars_def data_def)
  have ts: "map Timestamp bars
            = map real_of_int (filter (\<lambda>i. bucket data i (dc_jumps self) \<noteq> []) idx)"
    unfolding bars_def by (rule process_loop_timestamps)
  have iff: "(\<exists>b \<in> set bars. Timestamp b = real_of_int t) \<longleftrightarrow>
             ((\<exists>k::nat. t = start + int k * dc_jumps self) \<and> t < stop - 3600
              \<and> bucket data t (dc_jumps self) \<noteq> [])" for t
  proof -
    have "(\<exists>b \<in> set bars. Timestamp b = real_of_int t)
          \<longleftrightarrow> real_of_int t \<in> set (map Timestamp bars)"
      by force
    also have "\<dots> \<longleftrightarrow> t \<in> set (filter (\<lambda>i. bucket data i (dc_jumps self) \<noteq> []) idx)"
      unfolding ts by (auto simp add: image_iff)
    also have "\<dots> \<longleftrightarrow> ((\<exists>k::nat. t = start + int k * dc_jumps self) \<and> t < stop - 3600
              \<and> bucket data t (dc_jumps self) \<noteq> [])"
      using mem [of t] by simp
    finally show ?thesis .
  qed
  have d: "distinct (map Timestamp bars)"
    unfolding ts using dst by (simp add: distinct_map inj_on_def)
  have s: "sorted (map Timestamp bars)"
    unfolding ts using srt by (intro sorted_map_real_of_int sorted_wrt_filter)
  have m: "\<exists>t. Timestamp b = real_of_int t
              \<and> merge_data data t (dc_jumps self)
                  = Some (High b, Low b, Open b, Close b, Volume b)"
    if "b \<in> set bars" for b
    using that process_loop_bars [of b data "dc_jumps self" idx] unfolding bars_def by blast
  show ?thesis
    using run iff d s m unfolding data_def by blast
qed

theorem process_data_buckets_witness:
  "0 < dc_jumps (DataConverter_init 60)
   \<and> (\<exists>bars. process_data (DataConverter_init 60) example_hours 0 10800 = Inr bars
         \<and> map Timestamp bars = [0, 3600])"
proof -
  have h: "0 < dc_jumps (DataConverter_init 60)"
    by (simp add: DataConverter_init_def)
  obtain bars where
    run: "process_data (DataConverter_init 60) example_hours 0 10800 = Inr bars"
    using process_data_buckets [OF h, of example_hours 0 10800] by blast
  have "process_data (DataConverter_init 60) example_hours 0 10800
        = Inr [\<lparr>Timestamp = 0, High = 10, Low = 8, Open = 9, Close = 9, Volume = 2\<rparr>,
               \<lparr>Timestamp = 3600, High = 12, Low = 7, Open = 9, Close = 11, Volume = 3\<rparr>]"
    by (simp add: process_data_def load_data_def DataConverter_init_def py_range_def
        err_bind_def example_hours_def merge_data_def upt_rec)
  with run h show ?thesis by auto
qed

text \<open>
  C4 as stated fails: with the boundary \<open>[0, 7200)\<close> and a width of 60 minutes the bucket
  that starts at 3600 lies inside the boundary and holds a record, and the aggregator
  returns the bar of the bucket at 0 alone.
\<close>

theorem process_data_counterexample:
  "process_data (DataConverter_init 60) example_hours 0 7200
     = Inr [\<lparr>Timestamp = 0, High = 10, Low = 8, Open = 9, Close = 9, Volume = 2\<rparr>]
   \<and> bucket (fst (load_data example_hours 0 7200)) 3600
        (dc_jumps (DataConverter_init 60)) \<noteq> []
   \<and> (3600::int) = 0 + 1 * dc_jumps (DataConverter_init 60)
   \<and> (0::int) \<le> 3600 \<and> (3600::int) < 7200"
  by (simp add: process_data_def load_data_def DataConverter_init_def py_range_def
      err_bind_def example_hours_def merge_data_def bucket_def)

section \<open>Properties of the ratio split\<close>

lemma py_slice_prefix:
  assumes "0 \<le> a" "a \<le> int (length xs)"
  shows "py_slice None (Some a) xs = take (nat a) xs"
  using assms by (simp add: py_slice_def slice_bound_def)

lemma py_slice_middle:
  assumes "0 \<le> a" "1 \<le> c" "a + c \<le> int (length xs)"
  shows "py_slice (Some a) (Some (- c)) xs
         = take (length xs - nat c - nat a) (drop (nat a) xs)"
proof -
  have "slice_bound (length xs) a = a" "slice_bound (length xs) (- c) = int (length xs) - c"
    using assms by (simp_all add: slice_bound_def)
  moreover have "nat (int (length xs) - c - a) = length xs - nat c - nat a"
    using assms by linarith
  ultimately show ?thesis
    by (simp add: py_slice_def)
qed

lemma py_slice_suffix:
  assumes "1 \<le> c" "c \<le> int (length xs)"
  shows "py_slice (Some (- c)) None xs = drop (length xs - nat c) xs"
proof -
  have "slice_bound (length xs) (- c) = int (length xs) - c"
    using assms by (simp add: slice_bound_def)
  moreover have "nat (int (length xs) - c) = length xs - nat c"
    using assms by linarith
  ultimately show ?thesis
    by (simp add: py_slice_def)
qed

lemma three_parts:
  assumes "A + C \<le> length xs"
  shows "xs = take A xs @ take (length xs - C - A) (drop A xs) @ drop (length xs - C) xs"
proof -
  have "drop (length xs - C) xs = drop (length xs - C - A) (drop A xs)"
    using assms by simp
  moreover have "drop A xs
                 = take (length xs - C - A) (drop A xs) @ drop (length xs - C - A) (drop A xs)"
    by (simp only: append_take_drop_id)
  moreover have "xs = take A xs @ drop A xs"
    by (simp only: append_take_drop_id)
  ultimately show ?thesis by metis
qed

lemma iloc_list_ok:
  "set idx \<subseteq> {0 ..< length data} \<Longrightarrow> iloc_list data idx = Inr (map (\<lambda>i. data ! i) idx)"
  by (auto simp add: iloc_list_def)

text \<open>
  What lines 250--261 compute on an object whose two ratio attributes have been assigned
  from outside. Let \<open>n_train = int(train_ratio * n)\<close> and \<open>n_test = int(test_ratio * n)\<close> for a
  table of \<open>n\<close> rows. Whenever \<open>0 \<le> n_train\<close>, \<open>1 \<le> n_test\<close> and \<open>n_train + n_test \<le> n\<close>, the
  split succeeds for every permutation the shuffle draws, at position lists that are
  strictly ascending, pairwise disjoint, together all positions of the table, and of sizes
  that sum to \<open>n\<close>.
\<close>

lemma split_ratio_partition:
  assumes "dc_train_ratio self = Some train_ratio" "dc_test_ratio self = Some test_ratio"
    and "mset (shuffle [0 ..< length data]) = mset [0 ..< length data]"
    and "0 \<le> py_int (train_ratio * real (length data))"
    and "1 \<le> py_int (test_ratio * real (length data))"
    and "py_int (train_ratio * real (length data))
         + py_int (test_ratio * real (length data)) \<le> int (length data)"
  shows "\<exists>train val test.
           split_indices self (length data) shuffle = Inr (train, val, test)
         \<and> split_ratio self data shuffle
             = Inr (map (\<lambda>i. data ! i) train, map (\<lambda>i. data ! i) val, map (\<lambda>i. data ! i) test)
         \<and> sorted train \<and> distinct train \<and> sorted val \<and> distinct val
         \<and> sorted test \<and> distinct test
         \<and> set train \<inter> set val = {} \<and> set train \<inter> set test = {} \<and> set val \<inter> set test = {}
         \<and> set train \<union> set val \<union> set test = {0 ..< length data}
         \<and> length train + length val + length test = length data
         \<and> int (length train) = py_int (train_ratio * real (length data))
         \<and> int (length test) = py_int (test_ratio * real (length data))"
proof -
  define n where "n = length data"
  define a where "a = py_int (train_ratio * real n)"
  define c where "c = py_int (test_ratio * real n)"
  define total where "total = shuffle [0 ..< n]"
  define A where "A = take (nat a) total"
  define B where "B = take (n - nat c - nat a) (drop (nat a) total)"
  define C where "C = drop (n - nat c) total"
  have ms: "mset total = mset [0 ..< n]"
    using assms(3) by (simp add: total_def n_def)
  have len: "length total = n"
    using ms by (metis length_upt mset_eq_length minus_nat.diff_0)
  have st: "set total = {0 ..< n}"
    using ms by (metis mset_eq_setD set_upt)
  have di: "distinct total"
    using ms by (metis distinct_upt mset_eq_imp_distinct_iff)
  have a0: "0 \<le> a" and c1: "1 \<le> c" and ac: "a + c \<le> int n"
    using assms(4-6) by (simp_all add: a_def c_def n_def)
  have sA: "py_slice None (Some a) total = A"
    unfolding A_def using a0 ac c1 len by (intro py_slice_prefix) simp_all
  have sB: "py_slice (Some a) (Some (- c)) total = B"
    unfolding B_def using py_slice_middle [of a c total] a0 c1 ac len by simp
  have sC: "py_slice (Some (- c)) None total = C"
    unfolding C_def using py_slice_suffix [of c total] a0 c1 ac len by simp
  have "nat a + nat c \<le> length total"
    using a0 c1 ac len by linarith
  then have parts: "total = A @ B @ C"
    unfolding A_def B_def C_def using three_parts [of "nat a" "nat c" total] len by simp
  have idx: "split_indices self n shuffle = Inr (sort A, sort B, sort C)"
    using sA sB sC assms(1,2)
    by (simp add: split_indices_def read_attr_def err_bind_def a_def [symmetric]
        c_def [symmetric] total_def [symmetric])
  have dis: "distinct (A @ B @ C)"
    using di parts by simp
  have sets: "set A \<union> set B \<union> set C = {0 ..< n}"
    using st parts by (metis set_append Un_assoc)
  have lens: "length A + length B + length C = n"
    using len parts by (metis length_append add.assoc)
  have lA: "int (length A) = a"
    unfolding A_def using a0 c1 ac len by simp
  have lC: "int (length C) = c"
    unfolding C_def using a0 c1 ac len by simp
  have subA: "set (sort A) \<subseteq> {0 ..< length data}"
    and subB: "set (sort B) \<subseteq> {0 ..< length data}"
    and subC: "set (sort C) \<subseteq> {0 ..< length data}"
    using sets by (auto simp add: n_def)
  have run: "split_ratio self data shuffle
             = Inr (map (\<lambda>i. data ! i) (sort A), map (\<lambda>i. data ! i) (sort B),
                    map (\<lambda>i. data ! i) (sort C))"
    using idx iloc_list_ok [OF subA] iloc_list_ok [OF subB] iloc_list_ok [OF subC]
    by (simp add: split_ratio_def n_def [symmetric] err_bind_def)
  have d1: "set (sort A) \<inter> set (sort B) = {}" "set (sort A) \<inter> set (sort C) = {}"
    "set (sort B) \<inter> set (sort C) = {}"
    using dis by auto
  have d2: "distinct (sort A)" "distinct (sort B)" "distinct (sort C)"
    using dis by simp_all
  have "split_indices self (length data) shuffle = Inr (sort A, sort B, sort C)
         \<and> split_ratio self data shuffle
             = Inr (map (\<lambda>i. data ! i) (sort A), map (\<lambda>i. data ! i) (sort B),
                    map (\<lambda>i. data ! i) (sort C))
         \<and> sorted (sort A) \<and> distinct (sort A) \<and> sorted (sort B) \<and> distinct (sort B)
         \<and> sorted (sort C) \<and> distinct (sort C)
         \<and> set (sort A) \<inter> set (sort B) = {} \<and> set (sort A) \<inter> set (sort C) = {}
         \<and> set (sort B) \<inter> set (sort C) = {}
         \<and> set (sort A) \<union> set (sort B) \<union> set (sort C) = {0 ..< length data}
         \<and> length (sort A) + length (sort B) + length (sort C) = length data
         \<and> int (length (sort A)) = py_int (train_ratio * real (length data))
         \<and> int (length (sort C)) = py_int (test_ratio * real (length data))"
    using idx run d1 d2 sets lens lA lC
    by (simp add: n_def a_def c_def)
  then show ?thesis by blast
qed

lemma split_ratio_partition_example:
  "split_ratio ((DataConverter_init 1440)\<lparr>dc_train_ratio := Some (1 / 2),
                                           dc_test_ratio := Some (1 / 4)\<rparr>)
     [10, 20, 30, 40 :: nat] rev
   = Inr ([30, 40], [20], [10])"
  by (simp add: split_ratio_def split_indices_def read_attr_def DataConverter_init_def
      py_int_def py_slice_def slice_bound_def upt_rec iloc_list_def err_bind_def)

text \<open>
  C6 at concrete inputs. On every object that \<^verbatim>\<open>__init__\<close> builds, the ratio split raises
  AttributeError at \<^verbatim>\<open>self.train_ratio\<close>, for every table and every shuffle: it returns no
  subsets at all. And when the two attributes are assigned by hand, ratios 0.8 and 0.1 on
  five rows give \<^verbatim>\<open>n_test = 0\<close>, so that \<^verbatim>\<open>total[n_train:-0]\<close> is empty and
  \<^verbatim>\<open>total[-0:]\<close> is the whole table: train and test share four rows and the sizes sum
  to 9.
\<close>

theorem split_ratio_defects:
  "split_ratio (DataConverter_init config_jumps) data shuffle = Inl AttributeError
   \<and> split_ratio (DataConverter_init 1440) [10, 20, 30, 40, 50 :: nat] id = Inl AttributeError
   \<and> split_ratio ((DataConverter_init 1440)\<lparr>dc_train_ratio := Some (4 / 5),
                                               dc_test_ratio := Some (1 / 10)\<rparr>)
        [10, 20, 30, 40, 50 :: nat] id
      = Inr ([10, 20, 30, 40], [], [10, 20, 30, 40, 50])"
proof -
  have raises: "split_ratio (DataConverter_init j) d sh = Inl AttributeError"
    for j and d :: "'b list" and sh
    by (simp add: split_ratio_def split_indices_def read_attr_def DataConverter_init_def
        err_bind_def)
  have slip: "split_ratio ((DataConverter_init 1440)\<lparr>dc_train_ratio := Some (4 / 5),
                                               dc_test_ratio := Some (1 / 10)\<rparr>)
        [10, 20, 30, 40, 50 :: nat] id
      = Inr ([10, 20, 30, 40], [], [10, 20, 30, 40, 50])"
    by (simp add: split_ratio_def split_indices_def read_attr_def DataConverter_init_def
        py_int_def py_slice_def slice_bound_def upt_rec iloc_list_def err_bind_def)
  show ?thesis
    using raises [of config_jumps data shuffle] raises [of 1440 "[10, 20, 30, 40, 50 :: nat]" id]
      slip by simp
qed

section \<open>Properties of normalisation and of the return computation\<close>

text \<open>
  C7. With factors \<open>min < max\<close> for the target column, the transform normalises a value
  \<open>v\<close> to \<open>(v - min) / (max - min)\<close>, and denormalising that with the coefficients set from
  the same factors (multiply by \<open>max - min\<close>, add \<open>min\<close>) gives \<open>v\<close> back. With \<open>max = min\<close>
  the normalisation returns the values unchanged and without the error of a division by
  \<open>max - min\<close>: no division takes place.
\<close>

theorem normalize_denormalize_roundtrip:
  assumes "fm y_key = Some factor" "factor ''min'' = Some mn" "factor ''max'' = Some mx"
    and "bm_y_key bm = y_key"
  shows "(mn < mx \<longrightarrow>
            ct_normalize_target (Some fm) y_key (v, w)
              = Inr ((v - mn) / (mx - mn), (w - mn) / (mx - mn))
          \<and> (\<exists>bm'. set_normalization_coeffs bm fm = Inr bm'
                \<and> denormalize bm' [(v - mn) / (mx - mn)] None = One [v]
                \<and> denormalize bm' [(v - mn) / (mx - mn)] (Some [(w - mn) / (mx - mn)])
                    = Two [v] [w]))
       \<and> (mx = mn \<longrightarrow> ct_normalize_target (Some fm) y_key (v, w) = Inr (v, w))"
proof (intro conjI impI)
  assume lt: "mn < mx"
  show "ct_normalize_target (Some fm) y_key (v, w)
        = Inr ((v - mn) / (mx - mn), (w - mn) / (mx - mn))"
    using assms lt by (simp add: ct_normalize_target_def dict_get_def fdiv_def err_bind_def)
  let ?bm = "bm\<lparr>bm_normalization_coeffs := Some (mx - mn, mn)\<rparr>"
  have coeffs: "set_normalization_coeffs bm fm = Inr ?bm"
    using assms by (simp add: set_normalization_coeffs_def)
  have ne: "mx - mn \<noteq> 0" using lt by simp
  have undo: "(x - mn) / (mx - mn) * (mx - mn) + mn = x" for x
    using ne by simp
  have "denormalize ?bm [(v - mn) / (mx - mn)] None = One [v]"
    "denormalize ?bm [(v - mn) / (mx - mn)] (Some [(w - mn) / (mx - mn)]) = Two [v] [w]"
    using undo by (simp_all add: denormalize_def)
  with coeffs show "\<exists>bm'. set_normalization_coeffs bm fm = Inr bm'
                \<and> denormalize bm' [(v - mn) / (mx - mn)] None = One [v]
                \<and> denormalize bm' [(v - mn) / (mx - mn)] (Some [(w - mn) / (mx - mn)])
                    = Two [v] [w]"
    by blast
next
  assume "mx = mn"
  then show "ct_normalize_target (Some fm) y_key (v, w) = Inr (v, w)"
    using assms by (simp add: ct_normalize_target_def dict_get_def)
qed

theorem normalize_denormalize_roundtrip_witness:
  "example_factors ''Close'' = Some [''min'' \<mapsto> 50, ''max'' \<mapsto> 150]
   \<and> example_flat_factors ''Close'' = Some [''min'' \<mapsto> 100, ''max'' \<mapsto> 100]
   \<and> bm_y_key example_module = ''Close'' \<and> (50::real) < 150
   \<and> ct_normalize_target (Some example_factors) ''Close'' (100, 75) = Inr (1 / 2, 1 / 4)
   \<and> ct_normalize_target (Some example_flat_factors) ''Close'' (100, 75) = Inr (100, 75)"
proof -
  have f1: "example_factors ''Close'' = Some [''min'' \<mapsto> 50, ''max'' \<mapsto> 150]"
    by (simp add: example_factors_def)
  have f2: "example_flat_factors ''Close'' = Some [''min'' \<mapsto> 100, ''max'' \<mapsto> 100]"
    by (simp add: example_flat_factors_def)
  have k: "bm_y_key example_module = ''Close''"
    by (simp add: example_module_def)
  have a: "ct_normalize_target (Some example_factors) ''Close'' (100, 75) = Inr (1 / 2, 1 / 4)"
    using normalize_denormalize_roundtrip
      [of example_factors "''Close''" "[''min'' \<mapsto> 50, ''max'' \<mapsto> 150]" 50 150
          example_module 100 75, OF f1 _ _ k]
    by simp
  have b: "ct_normalize_target (Some example_flat_factors) ''Close'' (100, 75) = Inr (100, 75)"
    using normalize_denormalize_roundtrip
      [of example_flat_factors "''Close''" "[''min'' \<mapsto> 100, ''max'' \<mapsto> 100]" 100 100
          example_module 100 75, OF f2 _ _ k]
    by simp
  show ?thesis using f1 f2 k a b by simp
qed

lemma py_get_inside:
  assumes "- int (length xs) \<le> k" "k < int (length xs)"
  shows "\<exists>v. py_get xs k = Inr v"
  using assms by (simp add: py_get_def Let_def)

lemma py_range_count: "py_range 0 n 1 = Inr (map int [0 ..< nat n])"
  by (simp add: py_range_def)

lemma ds_returns_loop_map:
  assumes "\<And>i. i \<in> set idx \<Longrightarrow> ds_return_at prices ws i = Inr (f i)"
  shows "ds_returns_loop prices ws idx acc = Inr (acc @ map f idx)"
  using assms
proof (induction idx arbitrary: acc)
  case Nil
  show ?case by simp
next
  case (Cons i idx)
  have "ds_return_at prices ws i = Inr (f i)"
    using Cons.prems by simp
  moreover have "ds_returns_loop prices ws idx (acc @ [f i]) = Inr ((acc @ [f i]) @ map f idx)"
    using Cons.prems by (intro Cons.IH) simp
  ultimately show ?case
    by (simp add: err_bind_def)
qed

lemma ds_return_at_value:
  assumes "py_get prices (i + int ws) = Inr c" "py_get prices (i + int ws - 1) = Inr p"
  shows "ds_return_at prices ws i = Inr (if p = 0 then 0 else (c - p) / p)"
  using assms by (simp add: ds_return_at_def err_bind_def fdiv_def)

text \<open>
  C8. Every return computation gives exactly 0 when the previous target value is 0, and
  \<open>(current - previous) / previous\<close> otherwise, never the error of a division by zero: the
  per-window computations of \<^verbatim>\<open>DataTransform\<close> and \<^verbatim>\<open>ClassificationTransform\<close>, and the
  precomputation over the whole series in the dataset, which succeeds whenever the target
  column exists and stores one return per index, computed from the prices that the loop
  reads as current and previous.
\<close>

theorem returns_zero_guard:
  "dt_returns c p = Inr (if p = 0 then 0 else (c - p) / p)
   \<and> ct_returns c p = Inr (if p = 0 then 0 else (c - p) / p)
   \<and> (\<forall>prices. frame_col (ds_data self) (ds_y_key self) = Inr prices \<longrightarrow>
         (\<exists>rets. compute_returns self = Inr (self\<lparr>ds_returns := Some rets\<rparr>)
            \<and> int (length rets) = ds_len self
            \<and> (\<forall>i < length rets. \<exists>cur prev.
                  py_get prices (int i + int (ds_window_size self)) = Inr cur
                \<and> py_get prices (int i + int (ds_window_size self) - 1) = Inr prev
                \<and> rets ! i = (if prev = 0 then 0 else (cur - prev) / prev))))"
proof (intro conjI allI impI)
  show "dt_returns c p = Inr (if p = 0 then 0 else (c - p) / p)"
    by (simp add: dt_returns_def fdiv_def)
  show "ct_returns c p = Inr (if p = 0 then 0 else (c - p) / p)"
    by (simp add: ct_returns_def fdiv_def)
next
  fix prices
  assume col: "frame_col (ds_data self) (ds_y_key self) = Inr prices"
  define ws where "ws = ds_window_size self"
  define n where "n = nat (ds_len self)"
  have len: "length prices = length (rows (ds_data self))"
    using col by (auto simp add: frame_col_def frame_get_def split: if_splits)
  have n_eq: "int n = ds_len self"
    by (simp add: n_def ds_len_def)
  have gets: "\<exists>cur prev. py_get prices (int i + int ws) = Inr cur
                \<and> py_get prices (int i + int ws - 1) = Inr prev" if "i < n" for i
  proof -
    have b: "int i + int ws + 1 < int (length prices)"
      using that len by (simp add: n_def ds_len_def ws_def)
    have "\<exists>v. py_get prices (int i + int ws) = Inr v"
      using b by (intro py_get_inside) linarith+
    moreover have "\<exists>v. py_get prices (int i + int ws - 1) = Inr v"
      using b by (intro py_get_inside) linarith+
    ultimately show ?thesis by blast
  qed
  define f where "f = (\<lambda>i::int.
     case (py_get prices (i + int ws), py_get prices (i + int ws - 1)) of
       (Inr cur, Inr prev) \<Rightarrow> (if prev = 0 then 0 else (cur - prev) / prev)
     | _ \<Rightarrow> (0::real))"
  have step: "ds_return_at prices ws i = Inr (f i)" if mem: "i \<in> set (map int [0 ..< n])" for i
  proof -
    obtain k where k: "i = int k" "k < n"
      using mem by auto
    obtain cur prev where g: "py_get prices (i + int ws) = Inr cur"
      "py_get prices (i + int ws - 1) = Inr prev"
      using gets [OF k(2)] k(1) by blast
    show ?thesis
      using ds_return_at_value [OF g] g by (simp add: f_def)
  qed
  have loop: "ds_returns_loop prices ws (map int [0 ..< n]) [] = Inr (map f (map int [0 ..< n]))"
    using ds_returns_loop_map [of "map int [0 ..< n]" prices ws f "[]"] step by simp
  let ?rets = "map f (map int [0 ..< n])"
  have run: "compute_returns self = Inr (self\<lparr>ds_returns := Some ?rets\<rparr>)"
    using col loop
    by (simp add: compute_returns_def err_bind_def py_range_count n_def [symmetric]
        ws_def [symmetric])
  have vals: "\<exists>cur prev.
                  py_get prices (int i + int (ds_window_size self)) = Inr cur
                \<and> py_get prices (int i + int (ds_window_size self) - 1) = Inr prev
                \<and> ?rets ! i = (if prev = 0 then 0 else (cur - prev) / prev)"
    if "i < length ?rets" for i
  proof -
    have i: "i < n" using that by simp
    obtain cur prev where g: "py_get prices (int i + int ws) = Inr cur"
      "py_get prices (int i + int ws - 1) = Inr prev"
      using gets [OF i] by blast
    have "?rets ! i = f (int i)"
      using i by simp
    also have "\<dots> = (if prev = 0 then 0 else (cur - prev) / prev)"
      using g by (simp add: f_def)
    finally show ?thesis
      using g unfolding ws_def by blast
  qed
  have "int (length ?rets) = ds_len self"
    using n_eq by simp
  with run vals
  show "\<exists>rets. compute_returns self = Inr (self\<lparr>ds_returns := Some rets\<rparr>)
            \<and> int (length rets) = ds_len self
            \<and> (\<forall>i < length rets. \<exists>cur prev.
                  py_get prices (int i + int (ds_window_size self)) = Inr cur
                \<and> py_get prices (int i + int (ds_window_size self) - 1) = Inr prev
                \<and> rets ! i = (if prev = 0 then 0 else (cur - prev) / prev))"
    by blast
qed

theorem returns_zero_guard_witness:
  "frame_col (ds_data example_zero_dataset) (ds_y_key example_zero_dataset)
     = Inr [100, 0, 50, 0, 7]
   \<and> dt_returns 5 0 = Inr 0 \<and> ct_returns 5 0 = Inr 0
   \<and> compute_returns example_zero_dataset
       = Inr (example_zero_dataset\<lparr>ds_returns := Some [- 1, 0, - 1]\<rparr>)"
proof -
  have col: "frame_col (ds_data example_zero_dataset) (ds_y_key example_zero_dataset)
             = Inr [100, 0, 50, 0, 7]"
    by (simp add: example_zero_dataset_def example_zero_frame_def frame_col_def frame_get_def)
  have all: "dt_returns 5 0 = Inr (if (0::real) = 0 then 0 else (5 - 0) / 0)
   \<and> ct_returns 5 0 = Inr (if (0::real) = 0 then 0 else (5 - 0) / 0)
   \<and> (\<forall>prices. frame_col (ds_data example_zero_dataset) (ds_y_key example_zero_dataset)
                   = Inr prices \<longrightarrow>
         (\<exists>rets. compute_returns example_zero_dataset
                    = Inr (example_zero_dataset\<lparr>ds_returns := Some rets\<rparr>)
            \<and> int (length rets) = ds_len example_zero_dataset
            \<and> (\<forall>i < length rets. \<exists>cur prev.
                  py_get prices (int i + int (ds_window_size example_zero_dataset)) = Inr cur
                \<and> py_get prices (int i + int (ds_window_size example_zero_dataset) - 1) = Inr prev
                \<and> rets ! i = (if prev = 0 then 0 else (cur - prev) / prev))))"
    by (rule returns_zero_guard)
  then obtain rets where
    run: "compute_returns example_zero_dataset
          = Inr (example_zero_dataset\<lparr>ds_returns := Some rets\<rparr>)"
    and vals: "\<forall>i < length rets. \<exists>cur prev.
                  py_get [100, 0, 50, 0, 7] (int i + int (ds_window_size example_zero_dataset))
                    = Inr cur
                \<and> py_get [100, 0, 50, 0, 7]
                     (int i + int (ds_window_size example_zero_dataset) - 1) = Inr prev
                \<and> rets ! i = (if prev = 0 then 0 else (cur - prev) / prev)"
    and len: "int (length rets) = ds_len example_zero_dataset"
    using col by blast
  have l3: "length rets = 3"
    using len by (simp add: ds_len_def example_zero_dataset_def example_zero_frame_def)
  have ws: "ds_window_size example_zero_dataset = 1"
    by (simp add: example_zero_dataset_def)
  have r0: "rets ! 0 = - 1"
    using vals [rule_format, of 0] l3 by (simp add: ws py_get_def)
  have r1: "rets ! 1 = 0"
    using vals [rule_format, of 1] l3 by (simp add: ws py_get_def)
  have r2: "rets ! 2 = - 1"
    using vals [rule_format, of 2] l3 by (simp add: ws py_get_def)
  obtain x y z where xyz: "rets = [x, y, z]"
    using l3 by (auto simp add: numeral_3_eq_3 length_Suc_conv)
  have "rets = [- 1, 0, - 1]"
    using r0 r1 r2 unfolding xyz by (simp add: numeral_2_eq_2)
  with run col all show ?thesis by simp
qed

section \<open>State of the transform and the dataset's item accessor\<close>

text \<open>
  C9 at a concrete input. A fresh transform turns the plain window into a sample and keeps
  its key list. It also turns the window with the column \<^verbatim>\<open>Timestamp_orig\<close> into a
  sample, but that call appends \<^verbatim>\<open>'Timestamp_orig'\<close> to \<^verbatim>\<open>self.keys\<close>; on the transform
  left behind the plain window raises AttributeError.
\<close>

theorem dt_call_history_dependent:
  "\<not> isl (fst (dt_call example_transform example_window))
   \<and> dt_keys (snd (dt_call example_transform example_window)) = dt_keys example_transform
   \<and> \<not> isl (fst (dt_call example_transform example_window_orig))
   \<and> dt_keys (snd (dt_call example_transform example_window_orig))
       = dt_keys example_transform @ [''Timestamp_orig'']
   \<and> fst (dt_call (snd (dt_call example_transform example_window_orig)) example_window)
       = Inl AttributeError"
  by (simp add: dt_call_def example_transform_def DataTransform_init_def example_window_def
      example_window_orig_def frame_get_def py_get_def py_slice_def slice_bound_def
      err_bind_def)

text \<open>
  C10. In classification mode, whenever the inner transform returns a sample, the item
  accessor returns that sample with \<open>target_class\<close> set by the dataset's own labelling rule
  and threshold, applied to the sample's \<open>returns\<close>: to the value the transform put there, or,
  when the transform put none, to the precomputed return of the index. Whatever
  \<open>target_class\<close> the transform had put into the sample is overwritten.
\<close>

theorem getitem_target_class:
  assumes "ds_task_type self = ''classification''"
    and "transform st (ds_window self i) = (Inr smp, st')"
  shows "(\<forall>r. smp ''returns'' = Some r \<longrightarrow>
            ds_getitem self transform st i
              = (Inr (smp(''target_class'' \<mapsto> ds_create_class_labels (ds_threshold self) r)),
                 st'))
       \<and> (\<forall>rets. smp ''returns'' = None \<and> ds_returns self = Some rets
                  \<and> 0 \<le> i \<and> i < int (length rets) \<longrightarrow>
            ds_getitem self transform st i
              = (Inr (smp(''returns'' \<mapsto> PyFloat (rets ! nat i),
                          ''target_class'' \<mapsto> ds_create_class_labels (ds_threshold self)
                                               (PyFloat (rets ! nat i)))),
                 st'))
       \<and> (\<forall>s. fst (ds_getitem self transform st i) = Inr s \<longrightarrow>
            (\<exists>r. s ''returns'' = Some r
               \<and> s ''target_class'' = Some (ds_create_class_labels (ds_threshold self) r)))"
proof (intro conjI allI impI)
  fix r assume "smp ''returns'' = Some r"
  then show "ds_getitem self transform st i
              = (Inr (smp(''target_class'' \<mapsto> ds_create_class_labels (ds_threshold self) r)),
                 st')"
    using assms by (simp add: ds_getitem_def err_bind_def sample_get_def)
next
  fix rets
  assume h: "smp ''returns'' = None \<and> ds_returns self = Some rets
             \<and> 0 \<le> i \<and> i < int (length rets)"
  then have "py_get rets i = Inr (rets ! nat i)"
    by (simp add: py_get_def)
  then show "ds_getitem self transform st i
              = (Inr (smp(''returns'' \<mapsto> PyFloat (rets ! nat i),
                          ''target_class'' \<mapsto> ds_create_class_labels (ds_threshold self)
                                               (PyFloat (rets ! nat i)))),
                 st')"
    using assms h by (simp add: ds_getitem_def err_bind_def sample_get_def)
next
  fix s assume ok: "fst (ds_getitem self transform st i) = Inr s"
  show "\<exists>r. s ''returns'' = Some r
               \<and> s ''target_class'' = Some (ds_create_class_labels (ds_threshold self) r)"
  proof (cases "smp ''returns''")
    case (Some r)
    then show ?thesis
      using assms ok by (auto simp add: ds_getitem_def err_bind_def sample_get_def)
  next
    case None
    then show ?thesis
      using assms ok
      by (auto simp add: ds_getitem_def err_bind_def sample_get_def
          split: option.splits sum.splits)
  qed
qed

theorem getitem_target_class_witness:
  "ds_task_type example_cls_dataset = ''classification''
   \<and> sample_field (fst (dt_call example_cls_transform (ds_window example_cls_dataset 1)))
         ''returns'' = Some (TensorF [] [1 / 2000])
   \<and> sample_field (fst (dt_call example_cls_transform (ds_window example_cls_dataset 1)))
         ''target_class'' = Some (TensorL [] [2])
   \<and> sample_field (fst (ds_getitem example_cls_dataset dt_call example_cls_transform 1))
         ''target_class'' = Some (TensorL [] [1])"
proof -
  let ?w = "ds_window example_cls_dataset 1"
  have cls: "ds_task_type example_cls_dataset = ''classification''"
    by (simp add: example_cls_dataset_def)
  have w: "?w = \<lparr>columns = [''Timestamp'', ''Open'', ''High'', ''Low'', ''Close''],
                 rows = map (\<lambda>c key. if key = ''Close'' then c else 1) [100, 2001 / 20]\<rparr>"
    by (simp add: ds_window_def iloc_slice_def py_slice_def slice_bound_def
        example_cls_dataset_def)
  have tr: "sample_field (fst (dt_call example_cls_transform ?w)) ''returns''
              = Some (TensorF [] [1 / 2000])
          \<and> sample_field (fst (dt_call example_cls_transform ?w)) ''target_class''
              = Some (TensorL [] [2])"
    unfolding w
    by (simp add: dt_call_def example_cls_transform_def DataTransform_init_def frame_get_def
        py_get_def py_slice_def slice_bound_def err_bind_def sample_get_def dt_returns_def
        fdiv_def dt_labels_tensor_map sample_field_def)
  obtain res st' where call: "dt_call example_cls_transform ?w = (res, st')"
    by (cases "dt_call example_cls_transform ?w")
  obtain smp where res: "res = Inr smp"
    using tr call by (cases res) (simp_all add: sample_field_def)
  have ret: "smp ''returns'' = Some (TensorF [] [1 / 2000])"
    using tr call res by (simp add: sample_field_def)
  have "ds_getitem example_cls_dataset dt_call example_cls_transform 1
        = (Inr (smp(''target_class'' \<mapsto>
                  ds_create_class_labels (ds_threshold example_cls_dataset)
                    (TensorF [] [1 / 2000]))), st')"
    using getitem_target_class [OF cls, of dt_call example_cls_transform 1 smp st']
      call res ret by blast
  then have "sample_field (fst (ds_getitem example_cls_dataset dt_call example_cls_transform 1))
               ''target_class'' = Some (TensorL [] [1])"
    by (simp add: sample_field_def example_cls_dataset_def ds_labels_tensor_map)
  with cls tr show ?thesis by simp
qed

end
